theory Spec2Isabelle
  imports Complex_Main "HOL-Library.AList"
begin

section \<open>JavaScript numbers\<close>

text \<open>
  Every number of the program is a JavaScript number, an IEEE-754 double. The model keeps
  the three special values, because the program produces them from finite inputs
  (\<^verbatim>\<open>Math.log10\<close> of a temperature that is zero or negative, a division by zero, a
  product that overflows) and because comparisons, \<^verbatim>\<open>Math.min\<close>, \<^verbatim>\<open>Math.max\<close>
  and truthiness treat them specially. A finite value is a real number. The result of an
  operation on finite operands is the exact real result brought into the range of the
  doubles by \<open>fl\<close>: an infinity when rounding to nearest overflows, zero when it
  underflows to zero. Inside the range the rounding to 53 bits is not modelled, and the
  two zeros are one. The only divisions of the program whose divisor can be zero divide
  by the result of an addition (\<^verbatim>\<open>1 + T_keV / 15\<close>, \<^verbatim>\<open>pattern[key] + 1\<close>), which is
  the positive zero in IEEE arithmetic, so a zero divisor is read as \<open>+0\<close>.
\<close>

datatype jsnum = Num real | PosInf | NegInf | NaN

text \<open>
  Rounding to nearest gives an infinity from \<open>Number.MAX_VALUE\<close> plus half a unit in its
  last place on, that is from \<open>2\<^sup>1\<^sup>0\<^sup>2\<^sup>4 - 2\<^sup>9\<^sup>7\<^sup>0\<close>, and zero up to half the smallest
  subnormal \<open>2\<^sup>-\<^sup>1\<^sup>0\<^sup>7\<^sup>4\<close>.
\<close>

definition overflow_bound :: real where
  "overflow_bound = 2 ^ 1024 - 2 ^ 970"

definition underflow_bound :: real where
  "underflow_bound = 1 / 2 ^ 1075"

definition fl :: "real \<Rightarrow> jsnum" where
  "fl x =
     (if overflow_bound \<le> x then PosInf
      else if x \<le> - overflow_bound then NegInf
      else if \<bar>x\<bar> \<le> underflow_bound then Num 0
      else Num x)"

instantiation jsnum :: "{plus, minus, uminus, times, inverse, ord}"
begin

fun uminus_jsnum :: "jsnum \<Rightarrow> jsnum" where
  "- Num a = Num (- a)"
| "- PosInf = NegInf"
| "- NegInf = PosInf"
| "- NaN = NaN"

fun plus_jsnum :: "jsnum \<Rightarrow> jsnum \<Rightarrow> jsnum" where
  "Num a + Num b = fl (a + b)"
| "NaN + _ = NaN"
| "_ + NaN = NaN"
| "PosInf + NegInf = NaN"
| "NegInf + PosInf = NaN"
| "PosInf + _ = PosInf"
| "_ + PosInf = PosInf"
| "NegInf + _ = NegInf"
| "_ + NegInf = NegInf"

definition minus_jsnum :: "jsnum \<Rightarrow> jsnum \<Rightarrow> jsnum" where
  "minus_jsnum x y = x + (- y)"

fun times_jsnum :: "jsnum \<Rightarrow> jsnum \<Rightarrow> jsnum" where
  "Num a * Num b = fl (a * b)"
| "NaN * _ = NaN"
| "_ * NaN = NaN"
| "PosInf * Num b = (if b = 0 then NaN else if 0 < b then PosInf else NegInf)"
| "NegInf * Num b = (if b = 0 then NaN else if 0 < b then NegInf else PosInf)"
| "Num a * PosInf = (if a = 0 then NaN else if 0 < a then PosInf else NegInf)"
| "Num a * NegInf = (if a = 0 then NaN else if 0 < a then NegInf else PosInf)"
| "PosInf * PosInf = PosInf"
| "PosInf * NegInf = NegInf"
| "NegInf * PosInf = NegInf"
| "NegInf * NegInf = PosInf"

fun divide_jsnum :: "jsnum \<Rightarrow> jsnum \<Rightarrow> jsnum" where
  "divide_jsnum (Num a) (Num b) =
     (if b = 0 then (if a = 0 then NaN else if 0 < a then PosInf else NegInf)
      else fl (a / b))"
| "divide_jsnum NaN _ = NaN"
| "divide_jsnum _ NaN = NaN"
| "divide_jsnum (Num a) PosInf = Num 0"
| "divide_jsnum (Num a) NegInf = Num 0"
| "divide_jsnum PosInf (Num b) = (if 0 \<le> b then PosInf else NegInf)"
| "divide_jsnum NegInf (Num b) = (if 0 \<le> b then NegInf else PosInf)"
| "divide_jsnum PosInf PosInf = NaN"
| "divide_jsnum PosInf NegInf = NaN"
| "divide_jsnum NegInf PosInf = NaN"
| "divide_jsnum NegInf NegInf = NaN"

definition inverse_jsnum :: "jsnum \<Rightarrow> jsnum" where
  "inverse_jsnum (x::jsnum) = divide (Num 1) x"

fun less_jsnum :: "jsnum \<Rightarrow> jsnum \<Rightarrow> bool" where
  "Num a < Num b = (a < b)"
| "NaN < _ = False"
| "_ < NaN = False"
| "NegInf < NegInf = False"
| "NegInf < _ = True"
| "PosInf < _ = False"
| "Num a < PosInf = True"
| "Num a < NegInf = False"

fun less_eq_jsnum :: "jsnum \<Rightarrow> jsnum \<Rightarrow> bool" where
  "Num a \<le> Num b = (a \<le> b)"
| "NaN \<le> _ = False"
| "_ \<le> NaN = False"
| "NegInf \<le> _ = True"
| "_ \<le> PosInf = True"
| "PosInf \<le> _ = False"
| "Num a \<le> NegInf = False"

instance ..

end

text \<open>\<^verbatim>\<open>if (x)\<close> on a number: zero and NaN are falsy.\<close>

fun truthy :: "jsnum \<Rightarrow> bool" where
  "truthy (Num a) = (a \<noteq> 0)"
| "truthy NaN = False"
| "truthy _ = True"

text \<open>\<^verbatim>\<open>Math.min\<close> and \<^verbatim>\<open>Math.max\<close> return NaN as soon as one argument is NaN.\<close>

fun Math_min :: "jsnum \<Rightarrow> jsnum \<Rightarrow> jsnum" where
  "Math_min NaN _ = NaN"
| "Math_min _ NaN = NaN"
| "Math_min x y = (if y < x then y else x)"

fun Math_max :: "jsnum \<Rightarrow> jsnum \<Rightarrow> jsnum" where
  "Math_max NaN _ = NaN"
| "Math_max _ NaN = NaN"
| "Math_max x y = (if x < y then y else x)"

fun Math_exp :: "jsnum \<Rightarrow> jsnum" where
  "Math_exp (Num a) = fl (exp a)"
| "Math_exp PosInf = PosInf"
| "Math_exp NegInf = Num 0"
| "Math_exp NaN = NaN"

fun Math_log10 :: "jsnum \<Rightarrow> jsnum" where
  "Math_log10 (Num a) = (if 0 < a then fl (log 10 a) else if a = 0 then NegInf else NaN)"
| "Math_log10 PosInf = PosInf"
| "Math_log10 NegInf = NaN"
| "Math_log10 NaN = NaN"

text \<open>\<^verbatim>\<open>Math.pow(x, n)\<close> for a literal natural exponent \<open>n\<close>.\<close>

definition Math_pow :: "jsnum \<Rightarrow> nat \<Rightarrow> jsnum" where
  "Math_pow x n =
     (if n = 0 then Num 1
      else case x of
        Num a \<Rightarrow> fl (a ^ n)
      | PosInf \<Rightarrow> PosInf
      | NegInf \<Rightarrow> (if even n then PosInf else NegInf)
      | NaN \<Rightarrow> NaN)"

fun Math_abs :: "jsnum \<Rightarrow> jsnum" where
  "Math_abs (Num a) = Num \<bar>a\<bar>"
| "Math_abs NaN = NaN"
| "Math_abs _ = PosInf"

fun Math_floor :: "jsnum \<Rightarrow> jsnum" where
  "Math_floor (Num a) = Num (of_int \<lfloor>a\<rfloor>)"
| "Math_floor x = x"

text \<open>\<^verbatim>\<open>a || b\<close> on an optional numeric property: absent, zero and NaN give \<open>b\<close>.\<close>

fun or_default :: "jsnum option \<Rightarrow> jsnum \<Rightarrow> jsnum" where
  "or_default None d = d"
| "or_default (Some v) d = (if truthy v then v else d)"

text \<open>
  A property \<open>k: x\<close> followed by the spread \<^verbatim>\<open>...config\<close>: a property present in
  \<^verbatim>\<open>config\<close> overwrites \<open>x\<close>.
\<close>

fun spread :: "'a option \<Rightarrow> 'a \<Rightarrow> 'a" where
  "spread None x = x"
| "spread (Some v) _ = v"

section \<open>The fusion simulator\<close>

datatype phase = Ignition | RampUp | Burn | Decline

text \<open>The constructor's argument: every property may be absent.\<close>

record config_arg =
  arg_reactorType :: "string option"
  arg_initialTemperature :: "jsnum option"
  arg_initialDensity :: "jsnum option"
  arg_confinementTime :: "jsnum option"
  arg_majorRadius :: "jsnum option"
  arg_minorRadius :: "jsnum option"
  arg_magneticField :: "jsnum option"

record sim_config =
  reactorType :: string
  initialTemperature :: jsnum
  initialDensity :: jsnum
  cfg_confinementTime :: jsnum
  majorRadius :: jsnum
  minorRadius :: jsnum
  magneticField :: jsnum

text \<open>An entry of \<^verbatim>\<open>state.history\<close>.\<close>

record snapshot =
  snap_time :: jsnum
  snap_temperature :: jsnum
  snap_density :: jsnum
  snap_fusionPower :: jsnum
  snap_stability :: jsnum
  snap_phase :: phase

record plasma_state =
  temperature :: jsnum
  density :: jsnum
  confinementTime :: jsnum
  fusionPower :: jsnum
  stability :: jsnum
  phase :: phase
  time :: jsnum
  history :: "snapshot list"

record v5_params =
  barrier :: jsnum
  gamma :: jsnum
  inputRange_min :: jsnum
  inputRange_max :: jsnum

record simulator =
  config :: sim_config
  state :: plasma_state
  v5Params :: v5_params

definition no_config :: config_arg where
  "no_config = \<lparr>arg_reactorType = None, arg_initialTemperature = None,
     arg_initialDensity = None, arg_confinementTime = None, arg_majorRadius = None,
     arg_minorRadius = None, arg_magneticField = None\<rparr>"

definition or_default_str :: "string option \<Rightarrow> string \<Rightarrow> string" where
  "or_default_str c d = (case c of None \<Rightarrow> d | Some v \<Rightarrow> if v = [] then d else v)"

definition make_config :: "config_arg \<Rightarrow> sim_config" where
  "make_config c =
     \<lparr>reactorType = spread (arg_reactorType c) (or_default_str (arg_reactorType c) ''tokamak''),
      initialTemperature =
        spread (arg_initialTemperature c) (or_default (arg_initialTemperature c) (Num 100000000)),
      initialDensity =
        spread (arg_initialDensity c) (or_default (arg_initialDensity c) (Num (10 ^ 20))),
      cfg_confinementTime =
        spread (arg_confinementTime c) (or_default (arg_confinementTime c) (Num 3)),
      majorRadius = spread (arg_majorRadius c) (or_default (arg_majorRadius c) (Num 6)),
      minorRadius = spread (arg_minorRadius c) (or_default (arg_minorRadius c) (Num 2)),
      magneticField = spread (arg_magneticField c) (or_default (arg_magneticField c) (Num 5))\<rparr>"

definition FusionSimulator :: "config_arg \<Rightarrow> simulator" where
  "FusionSimulator c =
     (let cfg = make_config c in
      \<lparr>config = cfg,
       state = \<lparr>temperature = initialTemperature cfg,
                density = initialDensity cfg,
                confinementTime = cfg_confinementTime cfg,
                fusionPower = Num 0,
                stability = Num 0.5,
                phase = Ignition,
                time = Num 0,
                history = []\<rparr>,
       v5Params = \<lparr>barrier = Num 0.5, gamma = Num 2, inputRange_min = Num 0,
                   inputRange_max = Num 1\<rparr>\<rparr>)"

definition calculateFusionPower :: "simulator \<Rightarrow> jsnum" where
  "calculateFusionPower s =
     (let n = density (state s);
          T = temperature (state s);
          T_keV = T / Num 11600000;
          sigma_v = Num (11 / 10 ^ 22) * Math_pow T_keV 2 / (Num 1 + (T_keV / Num 15));
          E_fusion = Num 17.6 * Num (1602 / 10 ^ 16);
          power = n * n * sigma_v * E_fusion
      in power)"

definition normalizeInput :: "jsnum \<Rightarrow> jsnum" where
  "normalizeInput v = Math_max (Num 0) (Math_min (Num 1) v)"

definition calculateV5Barrier :: "simulator \<Rightarrow> jsnum \<Rightarrow> jsnum" where
  "calculateV5Barrier s inp =
     (let Input = normalizeInput inp;
          exponent = - Num 2 * gamma (v5Params s) * (Input - barrier (v5Params s));
          P = Num 1 / (Num 1 + Math_exp exponent)
      in P)"

definition calculateStability :: "simulator \<Rightarrow> jsnum" where
  "calculateStability s =
     (let n = density (state s) / Num (10 ^ 20);
          T = temperature (state s) / Num 100000000;
          tau = confinementTime (state s) / Num 3;
          tripleProduct = n * T * tau;
          lawsonLimit = Num (3 * 10 ^ 21);
          stab = Math_min (Num 1) (tripleProduct / lawsonLimit)
      in stab)"

text \<open>
  One tick. The source mutates \<^verbatim>\<open>this.state\<close> field by field; the model threads the
  simulator through the same assignments in the same order, one definition for each
  commented block of \<^verbatim>\<open>step\<close>.
\<close>

definition update_state :: "(plasma_state \<Rightarrow> plasma_state) \<Rightarrow> simulator \<Rightarrow> simulator" where
  "update_state f s = s\<lparr>state := f (state s)\<rparr>"

text \<open>\<^verbatim>\<open>this.state.time += deltaTime\<close>\<close>

definition advance_time :: "jsnum \<Rightarrow> simulator \<Rightarrow> simulator" where
  "advance_time deltaTime s = update_state (\<lambda>st. st\<lparr>time := time st + deltaTime\<rparr>) s"

text \<open>Update temperature (heat balance): additive heating, then multiplicative cooling.\<close>

definition update_temperature :: "jsnum \<Rightarrow> jsnum \<Rightarrow> simulator \<Rightarrow> simulator" where
  "update_temperature deltaTime fusionPower' s =
     (let heatingPower = Num 50000000;
          coolingFactor = Num 0.01;
          s' = update_state (\<lambda>st. st\<lparr>temperature :=
                 temperature st + (heatingPower + fusionPower') * deltaTime / Num 1000\<rparr>) s
      in update_state (\<lambda>st. st\<lparr>temperature :=
                 temperature st * (Num 1 - coolingFactor * deltaTime)\<rparr>) s')"

text \<open>Update density (fuel supply), then exhaust loss.\<close>

definition update_density :: "jsnum \<Rightarrow> simulator \<Rightarrow> simulator" where
  "update_density deltaTime s =
     (let fuelingRate = Num (10 ^ 18);
          s' = update_state (\<lambda>st. st\<lparr>density := density st + fuelingRate * deltaTime\<rparr>) s
      in update_state (\<lambda>st. st\<lparr>density := density st * (Num 1 - Num 0.001 * deltaTime)\<rparr>) s')"

text \<open>Update confinement time, from the temperature just updated.\<close>

definition update_confinementTime :: "simulator \<Rightarrow> simulator" where
  "update_confinementTime s =
     update_state (\<lambda>st. st\<lparr>confinementTime :=
        Num 3 * (Num 1 + Num 0.1 * Math_log10 (temperature st / Num 100000000))\<rparr>) s"

text \<open>Calculate stability using V5.\<close>

definition update_stability :: "simulator \<Rightarrow> simulator" where
  "update_stability s =
     (let stab = calculateStability s
      in update_state (\<lambda>st. st\<lparr>stability := calculateV5Barrier s stab\<rparr>) s)"

text \<open>Determine phase.\<close>

definition determine_phase :: "simulator \<Rightarrow> simulator" where
  "determine_phase s =
     (if Num 100000000 < temperature (state s) \<and> Num 1000000 < fusionPower (state s)
      then update_state (\<lambda>st. st\<lparr>phase := Burn\<rparr>) s
      else if Num 50000000 < temperature (state s)
      then update_state (\<lambda>st. st\<lparr>phase := RampUp\<rparr>) s
      else s)"

text \<open>Store history: \<^verbatim>\<open>push\<close> appends at the end.\<close>

definition current_snapshot :: "simulator \<Rightarrow> snapshot" where
  "current_snapshot s =
     \<lparr>snap_time = time (state s),
      snap_temperature = temperature (state s),
      snap_density = density (state s),
      snap_fusionPower = fusionPower (state s),
      snap_stability = stability (state s),
      snap_phase = phase (state s)\<rparr>"

definition store_history :: "simulator \<Rightarrow> simulator" where
  "store_history s =
     update_state (\<lambda>st. st\<lparr>history := history st @ [current_snapshot s]\<rparr>) s"

text \<open>Limit history size: \<^verbatim>\<open>shift\<close> removes the first element.\<close>

definition limit_history :: "simulator \<Rightarrow> simulator" where
  "limit_history s =
     (if 1000 < length (history (state s))
      then update_state (\<lambda>st. st\<lparr>history := tl (history st)\<rparr>) s
      else s)"

definition step :: "jsnum \<Rightarrow> simulator \<Rightarrow> simulator" where
  "step deltaTime s0 =
     (let s1 = advance_time deltaTime s0;
          fusionPower' = calculateFusionPower s1;
          s2 = update_temperature deltaTime fusionPower' s1;
          s3 = update_density deltaTime s2;
          s4 = update_confinementTime s3;
          s5 = update_state (\<lambda>st. st\<lparr>fusionPower := fusionPower'\<rparr>) s4;
          s6 = update_stability s5;
          s7 = determine_phase s6;
          s8 = store_history s7
      in limit_history s8)"

definition getState :: "simulator \<Rightarrow> plasma_state" where
  "getState s = state s"

definition getHistory :: "simulator \<Rightarrow> snapshot list" where
  "getHistory s = history (state s)"

record control =
  ctl_heating :: "jsnum option"
  ctl_fueling :: "jsnum option"
  ctl_magneticField :: "jsnum option"

text \<open>
  \<^verbatim>\<open>applyControl\<close>. Each \<^verbatim>\<open>if (control.x)\<close> tests a property that may be absent
  (\<^verbatim>\<open>undefined\<close>, falsy) or a number (falsy when zero or NaN). The body of the first
  \<^verbatim>\<open>if\<close> is empty.
\<close>

definition applyControl :: "control \<Rightarrow> simulator \<Rightarrow> simulator" where
  "applyControl c s0 =
     (let s1 = (case ctl_heating c of
                  None \<Rightarrow> s0
                | Some h \<Rightarrow> if truthy h then s0 else s0);
          s2 = (case ctl_fueling c of
                  None \<Rightarrow> s1
                | Some f \<Rightarrow>
                    if truthy f
                    then update_state (\<lambda>st. st\<lparr>density := density st * (Num 1 + f)\<rparr>) s1
                    else s1);
          s3 = (case ctl_magneticField c of
                  None \<Rightarrow> s2
                | Some b \<Rightarrow>
                    if truthy b
                    then s2\<lparr>config := (config s2)\<lparr>magneticField := b\<rparr>\<rparr>
                    else s2)
      in s3)"

text \<open>A run of ticks, one \<^verbatim>\<open>deltaTime\<close> per call, oldest first.\<close>

definition run_steps :: "jsnum list \<Rightarrow> simulator \<Rightarrow> simulator" where
  "run_steps dts s = foldl (\<lambda>s dt. step dt s) s dts"

section \<open>The decision engine\<close>

text \<open>
  \<^verbatim>\<open>String(x)\<close> on a number, as the template literals of \<^verbatim>\<open>hashState\<close> and of
  \<^verbatim>\<open>TwinCosmos.step\<close> apply it, is a parameter \<open>toStr\<close> of the functions that build keys.
\<close>

type_synonym num_to_string = "jsnum \<Rightarrow> string"

record engine_arg =
  arg_decisionThreshold :: "jsnum option"
  arg_explorationRate :: "jsnum option"
  arg_barrier :: "jsnum option"
  arg_gamma :: "jsnum option"

text \<open>
  \<^verbatim>\<open>config.memory\<close> is a reference to the memory component that no method of the engine
  reads; it is left out of the record.
\<close>

record engine_config =
  decisionThreshold :: jsnum
  explorationRate :: jsnum

record engine_v5 =
  e_barrier :: jsnum
  e_gamma :: jsnum

record labels =
  heating :: string
  fueling :: string
  magnetic :: string

record pattern =
  p_temperature :: jsnum
  p_density :: jsnum
  p_stability :: jsnum
  p_fusionPower :: jsnum
  count :: jsnum
  totalScore :: jsnum

record decision_state =
  ds_temperature :: jsnum
  ds_density :: jsnum
  ds_stability :: jsnum
  ds_phase :: phase

record decision =
  timestamp :: jsnum
  d_state :: decision_state
  actions :: labels
  rationale :: "string list"
  confidence :: jsnum
  shouldAct :: bool

text \<open>\<^verbatim>\<open>patterns\<close> is a \<^verbatim>\<open>Map\<close>: keys in insertion order, a key at most once.\<close>

record engine =
  e_config :: engine_config
  e_v5Params :: engine_v5
  e_history :: "decision list"
  patterns :: "(string \<times> pattern) list"
  currentBest :: labels

definition no_engine_arg :: engine_arg where
  "no_engine_arg = \<lparr>arg_decisionThreshold = None, arg_explorationRate = None,
     arg_barrier = None, arg_gamma = None\<rparr>"

definition algorithms :: "string list \<times> string list \<times> string list" where
  "algorithms = (['' PID'', ''ML-PID'', ''Adaptive'', ''Neural''],
                 [''Constant'', ''Pulsed'', ''Feedback'', ''Predictive''],
                 [''Fixed'', ''Adaptive'', ''Optimized'', ''AI''])"

definition DecisionEngine :: "engine_arg \<Rightarrow> engine" where
  "DecisionEngine c =
     \<lparr>e_config = \<lparr>decisionThreshold =
                    spread (arg_decisionThreshold c) (or_default (arg_decisionThreshold c) (Num 0.7)),
                  explorationRate =
                    spread (arg_explorationRate c) (or_default (arg_explorationRate c) (Num 0.1))\<rparr>,
      e_v5Params = \<lparr>e_barrier = or_default (arg_barrier c) (Num 0.5),
                    e_gamma = or_default (arg_gamma c) (Num 1.5)\<rparr>,
      e_history = [],
      patterns = [],
      currentBest = \<lparr>heating = ''PID'', fueling = ''Feedback'', magnetic = ''Adaptive''\<rparr>\<rparr>"

text \<open>
  The second argument of \<^verbatim>\<open>compareState\<close> as the callers pass it: a pattern object, or a
  string. \<^verbatim>\<open>pattern[key]\<close> on a string primitive is \<^verbatim>\<open>undefined\<close> for each of the
  four keys of the loop (a string has the properties \<^verbatim>\<open>length\<close> and its indices only).
\<close>

datatype pattern_arg = PatternObj pattern | KeyString string

fun pattern_prop :: "pattern_arg \<Rightarrow> string \<Rightarrow> jsnum option" where
  "pattern_prop (KeyString k) key = None"
| "pattern_prop (PatternObj p) key =
     (if key = ''temperature'' then Some (p_temperature p)
      else if key = ''density'' then Some (p_density p)
      else if key = ''stability'' then Some (p_stability p)
      else if key = ''fusionPower'' then Some (p_fusionPower p)
      else None)"

text \<open>\<^verbatim>\<open>current[key]\<close> for the four keys.\<close>

definition state_prop :: "plasma_state \<Rightarrow> string \<Rightarrow> jsnum" where
  "state_prop current key =
     (if key = ''temperature'' then temperature current
      else if key = ''density'' then density current
      else if key = ''stability'' then stability current
      else fusionPower current)"

text \<open>The body of the loop of \<^verbatim>\<open>compareState\<close>, on \<open>(totalWeight, matchedWeight)\<close>.\<close>

fun compare_keys ::
  "plasma_state \<Rightarrow> pattern_arg \<Rightarrow> string list \<Rightarrow> jsnum \<times> jsnum \<Rightarrow> jsnum \<times> jsnum" where
  "compare_keys current pat [] acc = acc"
| "compare_keys current pat (key # keys) (totalWeight, matchedWeight) =
     (case pattern_prop pat key of
        None \<Rightarrow> compare_keys current pat keys (totalWeight, matchedWeight)
      | Some pv \<Rightarrow>
          (let weight = (if key = ''stability'' then Num 2 else Num 1);
               totalWeight' = totalWeight + weight;
               diff = Math_abs (state_prop current key - pv) / (pv + Num 1);
               matchedWeight' = (if diff < Num 0.2 then matchedWeight + weight else matchedWeight)
           in compare_keys current pat keys (totalWeight', matchedWeight')))"

definition compareState :: "plasma_state \<Rightarrow> pattern_arg \<Rightarrow> jsnum" where
  "compareState current pat =
     (let keys = [''temperature'', ''density'', ''stability'', ''fusionPower''];
          (totalWeight, matchedWeight) = compare_keys current pat keys (Num 0, Num 0)
      in if Num 0 < totalWeight then matchedWeight / totalWeight else Num 0)"

text \<open>
  The loop of \<^verbatim>\<open>calculateMatchScore\<close> destructures each entry of the map as
  \<^verbatim>\<open>[pattern, score]\<close>: \<^verbatim>\<open>pattern\<close> is bound to the key of the entry, a string, and
  \<^verbatim>\<open>score\<close> to the pattern object, which the body does not use.
\<close>

fun best_match :: "plasma_state \<Rightarrow> (string \<times> pattern) list \<Rightarrow> jsnum \<Rightarrow> jsnum" where
  "best_match st [] bestMatch = bestMatch"
| "best_match st ((pat, score) # rest) bestMatch =
     (let match = compareState st (KeyString pat)
      in best_match st rest (if bestMatch < match then match else bestMatch))"

definition calculateMatchScore :: "engine \<Rightarrow> plasma_state \<Rightarrow> jsnum" where
  "calculateMatchScore e st =
     (if length (patterns e) = 0 then Num 0.5
      else best_match st (patterns e) (Num 0))"

record v5_result =
  probability :: jsnum
  v5_confidence :: jsnum
  shouldDecide :: bool
  matchScore :: jsnum

definition calculateDecision :: "engine \<Rightarrow> plasma_state \<Rightarrow> v5_result" where
  "calculateDecision e inp =
     (let matchScore' = calculateMatchScore e inp;
          exponent = - Num 2 * e_gamma (e_v5Params e) * (matchScore' - e_barrier (e_v5Params e));
          P = Num 1 / (Num 1 + Math_exp exponent)
      in \<lparr>probability = P, v5_confidence = P,
          shouldDecide = (decisionThreshold (e_config e) < P),
          matchScore = matchScore'\<rparr>)"

definition decideHeating :: "engine \<Rightarrow> plasma_state \<Rightarrow> string \<times> string" where
  "decideHeating e st =
     (if temperature st < Num 50000000
      then (''PID'', ''Temperature too low, use aggressive PID'')
      else if stability st < Num 0.3
      then (''ML-PID'', ''Stability low, use ML-enhanced PID'')
      else if phase st = Burn
      then (''Adaptive'', ''Burn phase, adaptive control'')
      else (heating (currentBest e), ''Normal operation''))"

definition decideFuel :: "engine \<Rightarrow> plasma_state \<Rightarrow> string \<times> string" where
  "decideFuel e st =
     (if density st < Num (5 * 10 ^ 19)
      then (''Pulsed'', ''Low density, pulsed fueling'')
      else if stability st < Num 0.4
      then (''Predictive'', ''Low stability, predictive fueling'')
      else if phase st = Burn
      then (''Feedback'', ''Burn phase, feedback control'')
      else (fueling (currentBest e), ''Normal operation''))"

definition decideMagnetic :: "engine \<Rightarrow> plasma_state \<Rightarrow> string \<times> string" where
  "decideMagnetic e st =
     (if stability st < Num 0.3
      then (''AI'', ''Critical stability, use AI control'')
      else if phase st = Burn
      then (''Optimized'', ''Burn phase, optimized magnetic field'')
      else (magnetic (currentBest e), ''Normal operation''))"

definition hashState :: "num_to_string \<Rightarrow> plasma_state \<Rightarrow> string" where
  "hashState toStr st =
     (let t = Math_floor (temperature st / Num 10000000);
          d = Math_floor (density st / Num (10 ^ 19));
          s = Math_floor (stability st * Num 10)
      in toStr t @ ''_'' @ toStr d @ ''_'' @ toStr s)"

text \<open>
  \<^verbatim>\<open>Map.set\<close> on the association list: the value of a key that is present is replaced
  where it stands, a new key goes to the end.
\<close>

definition map_set :: "string \<Rightarrow> 'a \<Rightarrow> (string \<times> 'a) list \<Rightarrow> (string \<times> 'a) list" where
  "map_set k v m = AList.update k v m"

text \<open>
  \<^verbatim>\<open>learn\<close>. The pattern object of the bucket is the one the map holds, or a new one
  that is put into the map first; the source then mutates that object in place, which is
  a write under the same key.
\<close>

definition learn :: "num_to_string \<Rightarrow> plasma_state \<Rightarrow> decision \<Rightarrow> engine \<Rightarrow> engine" where
  "learn toStr st dec e =
     (let patternKey = hashState toStr st;
          pat = (case map_of (patterns e) patternKey of
                   None \<Rightarrow>
                     \<lparr>p_temperature = temperature st, p_density = density st,
                      p_stability = stability st, p_fusionPower = fusionPower st,
                      count = Num 0, totalScore = Num 0\<rparr>
                 | Some p \<Rightarrow> p);
          pat1 = pat\<lparr>count := count pat + Num 1\<rparr>;
          successScore = (if Num 0.5 < stability st then Num 1 else Num 0);
          pat2 = pat1\<lparr>totalScore := totalScore pat1 + successScore\<rparr>;
          e1 = e\<lparr>patterns := map_set patternKey pat2 (patterns e)\<rparr>
      in if Num 0.8 < successScore
         then e1\<lparr>currentBest := \<lparr>heating = heating (actions dec),
                                  fueling = fueling (actions dec),
                                  magnetic = magnetic (actions dec)\<rparr>\<rparr>
         else e1)"

text \<open>\<^verbatim>\<open>decide\<close>; \<open>now\<close> is what \<^verbatim>\<open>Date.now()\<close> returns.\<close>

definition decide :: "num_to_string \<Rightarrow> jsnum \<Rightarrow> plasma_state \<Rightarrow> engine \<Rightarrow> decision \<times> engine" where
  "decide toStr now fusionState e =
     (let heatingDecision = decideHeating e fusionState;
          fuelingDecision = decideFuel e fusionState;
          magneticDecision = decideMagnetic e fusionState;
          v5Result = calculateDecision e fusionState;
          dec = \<lparr>timestamp = now,
                 d_state = \<lparr>ds_temperature = temperature fusionState,
                            ds_density = density fusionState,
                            ds_stability = stability fusionState,
                            ds_phase = phase fusionState\<rparr>,
                 actions = \<lparr>heating = fst heatingDecision,
                            fueling = fst fuelingDecision,
                            magnetic = fst magneticDecision\<rparr>,
                 rationale = [snd heatingDecision, snd fuelingDecision, snd magneticDecision],
                 confidence = v5_confidence v5Result,
                 shouldAct = shouldDecide v5Result\<rparr>;
          e1 = learn toStr fusionState dec e;
          e2 = e1\<lparr>e_history := e_history e1 @ [dec]\<rparr>
      in (dec, e2))"

definition engine_getHistory :: "engine \<Rightarrow> decision list" where
  "engine_getHistory e = e_history e"

section \<open>The in-memory store\<close>

text \<open>
  \<^verbatim>\<open>String.prototype.includes\<close>: the query occurs in the string as a contiguous run of
  characters, at any position.
\<close>

fun starts_with :: "string \<Rightarrow> string \<Rightarrow> bool" where
  "starts_with s [] = True"
| "starts_with [] (q # qs) = False"
| "starts_with (c # cs) (q # qs) = (c = q \<and> starts_with cs qs)"

fun str_includes :: "string \<Rightarrow> string \<Rightarrow> bool" where
  "str_includes [] query = (query = [])"
| "str_includes (c # cs) query = (starts_with (c # cs) query \<or> str_includes cs query)"

record ('v, 'm) entry =
  entry_value :: 'v
  meta :: 'm
  entry_timestamp :: jsnum

text \<open>An element of the result of \<^verbatim>\<open>retrieve\<close>: \<^verbatim>\<open>{ key, ...entry }\<close>.\<close>

record ('v, 'm) found =
  found_key :: string
  found_value :: 'v
  found_meta :: 'm
  found_timestamp :: jsnum

text \<open>
  The memory component. \<^verbatim>\<open>data\<close> is a \<^verbatim>\<open>Map\<close>, or absent (both methods test it).
  Keys are strings. The type \<open>'v\<close> is that of the values that \<^verbatim>\<open>JSON.stringify\<close>
  turns into a string, as it does the decision objects that the driver stores, and
  \<^verbatim>\<open>JSON.stringify\<close> on them is the parameter \<open>stringify\<close>; \<^verbatim>\<open>undefined\<close>, functions
  and symbols, for which it returns \<^verbatim>\<open>undefined\<close>, are not values of \<open>'v\<close>.
\<close>

record ('v, 'm) memory =
  data :: "(string \<times> ('v, 'm) entry) list option"

definition store ::
  "jsnum \<Rightarrow> string \<Rightarrow> 'v \<Rightarrow> 'm \<Rightarrow> ('v, 'm) memory \<Rightarrow> bool \<times> ('v, 'm) memory" where
  "store now key v m mem =
     (let d = (case data mem of None \<Rightarrow> [] | Some d \<Rightarrow> d);
          mem' = mem\<lparr>data := Some (map_set key
                   \<lparr>entry_value = v, meta = m, entry_timestamp = now\<rparr> d)\<rparr>
      in (True, mem'))"

fun retrieve_loop ::
  "('v \<Rightarrow> string) \<Rightarrow> string \<Rightarrow> (string \<times> ('v, 'm) entry) list \<Rightarrow> ('v, 'm) found list
     \<Rightarrow> ('v, 'm) found list" where
  "retrieve_loop stringify query [] results = results"
| "retrieve_loop stringify query ((key, e) # rest) results =
     (if str_includes key query \<or> str_includes (stringify (entry_value e)) query
      then retrieve_loop stringify query rest
             (results @ [\<lparr>found_key = key, found_value = entry_value e, found_meta = meta e,
                           found_timestamp = entry_timestamp e\<rparr>])
      else retrieve_loop stringify query rest results)"

definition retrieve :: "('v \<Rightarrow> string) \<Rightarrow> string \<Rightarrow> ('v, 'm) memory \<Rightarrow> ('v, 'm) found list" where
  "retrieve stringify query mem =
     (case data mem of
        None \<Rightarrow> []
      | Some d \<Rightarrow> retrieve_loop stringify query d [])"

section \<open>TwinCosmos\<close>

record cosmos_arg =
  arg_memoryEnabled :: "bool option"
  arg_fusionEnabled :: "bool option"
  arg_decisionEnabled :: "bool option"
  arg_cosmos_reactorType :: "string option"

record cosmos_config =
  memoryEnabled :: bool
  fusionEnabled :: bool
  decisionEnabled :: bool
  cosmos_reactorType :: "string option"

record store_meta =
  meta_timestamp :: jsnum
  meta_type :: string

record components =
  memory :: "(decision, store_meta) memory option"
  fusion :: "simulator option"
  decision :: "engine option"

text \<open>
  \<^verbatim>\<open>state.memory\<close>, \<^verbatim>\<open>state.fusion\<close> and \<^verbatim>\<open>state.decisions\<close> are set to
  \<^verbatim>\<open>null\<close>, \<^verbatim>\<open>null\<close> and \<^verbatim>\<open>[]\<close> by the constructor and never assigned again.
\<close>

record cosmos_state =
  initialized :: bool
  cosmos_time :: jsnum
  state_memory :: "unit option"
  state_fusion :: "unit option"
  state_decisions :: "unit list"

record cosmos =
  cosmos_cfg :: cosmos_config
  cosmos_components :: components
  cosmos_st :: cosmos_state

text \<open>\<^verbatim>\<open>a ?? b\<close>: \<open>b\<close> when the property is absent.\<close>

fun nullish_default :: "'a option \<Rightarrow> 'a \<Rightarrow> 'a" where
  "nullish_default None d = d"
| "nullish_default (Some v) d = v"

definition TwinCosmos :: "cosmos_arg \<Rightarrow> cosmos" where
  "TwinCosmos c =
     \<lparr>cosmos_cfg =
        \<lparr>memoryEnabled = spread (arg_memoryEnabled c) (nullish_default (arg_memoryEnabled c) True),
         fusionEnabled = spread (arg_fusionEnabled c) (nullish_default (arg_fusionEnabled c) True),
         decisionEnabled =
           spread (arg_decisionEnabled c) (nullish_default (arg_decisionEnabled c) True),
         cosmos_reactorType = arg_cosmos_reactorType c\<rparr>,
      cosmos_components = \<lparr>memory = None, fusion = None, decision = None\<rparr>,
      cosmos_st = \<lparr>initialized = False, cosmos_time = Num 0, state_memory = None,
                    state_fusion = None, state_decisions = []\<rparr>\<rparr>"

definition initialize :: "cosmos \<Rightarrow> cosmos" where
  "initialize c0 =
     (let c1 = (if memoryEnabled (cosmos_cfg c0)
                then c0\<lparr>cosmos_components := (cosmos_components c0)\<lparr>memory := Some \<lparr>data = Some []\<rparr>\<rparr>\<rparr>
                else c0);
          c2 = (if fusionEnabled (cosmos_cfg c1)
                then c1\<lparr>cosmos_components := (cosmos_components c1)\<lparr>fusion := Some
                       (FusionSimulator (no_config\<lparr>
                          arg_reactorType :=
                            Some (or_default_str (cosmos_reactorType (cosmos_cfg c1)) ''tokamak''),
                          arg_initialTemperature := Some (Num 100000000),
                          arg_initialDensity := Some (Num (10 ^ 20))\<rparr>))\<rparr>\<rparr>
                else c1);
          c3 = (if decisionEnabled (cosmos_cfg c2)
                then c2\<lparr>cosmos_components := (cosmos_components c2)\<lparr>decision := Some
                       (DecisionEngine no_engine_arg)\<rparr>\<rparr>
                else c2)
      in c3\<lparr>cosmos_st := (cosmos_st c3)\<lparr>initialized := True\<rparr>\<rparr>)"

datatype error = Error string

record step_results =
  res_time :: jsnum
  res_fusion :: "plasma_state option"
  res_decision :: "decision option"
  res_memory :: "unit option"

text \<open>The three readings of \<^verbatim>\<open>Date.now()\<close> that one tick can make.\<close>

record clock =
  now_decide :: jsnum
  now_meta :: jsnum
  now_store :: jsnum

text \<open>
  \<^verbatim>\<open>TwinCosmos.step\<close>. The result is the value returned or the error thrown, with the
  object as the call leaves it.
\<close>

definition cosmos_step ::
  "num_to_string \<Rightarrow> clock \<Rightarrow> jsnum \<Rightarrow> cosmos \<Rightarrow> (error + step_results) \<times> cosmos" where
  "cosmos_step toStr clk deltaTime c0 =
     (if \<not> initialized (cosmos_st c0)
      then (Inl (Error ''TwinCosmos not initialized''), c0)
      else
        (let c1 = c0\<lparr>cosmos_st := (cosmos_st c0)\<lparr>cosmos_time :=
                      cosmos_time (cosmos_st c0) + deltaTime\<rparr>\<rparr>;
             r0 = \<lparr>res_time = cosmos_time (cosmos_st c1), res_fusion = None,
                    res_decision = None, res_memory = None\<rparr>;
             (r1, c2) =
               (case fusion (cosmos_components c1) of
                  None \<Rightarrow> (r0, c1)
                | Some sim \<Rightarrow>
                    (let sim' = step deltaTime sim
                     in (r0\<lparr>res_fusion := Some (getState sim')\<rparr>,
                         c1\<lparr>cosmos_components := (cosmos_components c1)\<lparr>fusion := Some sim'\<rparr>\<rparr>)));
             (r2, c3) =
               (case (decision (cosmos_components c2), res_fusion r1) of
                  (Some eng, Some fs) \<Rightarrow>
                    (let (dec, eng') = decide toStr (now_decide clk) fs eng
                     in (r1\<lparr>res_decision := Some dec\<rparr>,
                         c2\<lparr>cosmos_components := (cosmos_components c2)\<lparr>decision := Some eng'\<rparr>\<rparr>))
                | _ \<Rightarrow> (r1, c2));
             c4 =
               (case (memory (cosmos_components c3), res_decision r2) of
                  (Some mem, Some dec) \<Rightarrow>
                    (let (ok, mem') = store (now_store clk)
                           (''step_'' @ toStr (cosmos_time (cosmos_st c3))) dec
                           \<lparr>meta_timestamp = now_meta clk, meta_type = ''decision''\<rparr> mem
                     in c3\<lparr>cosmos_components := (cosmos_components c3)\<lparr>memory := Some mem'\<rparr>\<rparr>)
                | _ \<Rightarrow> c3)
         in (Inr r2, c4)))"

section \<open>Notions used in the statements\<close>

text \<open>What one tick makes of the temperature, the density and the phase.\<close>

definition heated :: "jsnum \<Rightarrow> jsnum \<Rightarrow> jsnum \<Rightarrow> jsnum" where
  "heated dt P T = (T + (Num 50000000 + P) * dt / Num 1000) * (Num 1 - Num 0.01 * dt)"

definition fuelled :: "jsnum \<Rightarrow> jsnum \<Rightarrow> jsnum" where
  "fuelled dt n = (n + Num (10 ^ 18) * dt) * (Num 1 - Num 0.001 * dt)"

definition confinement_of :: "jsnum \<Rightarrow> jsnum" where
  "confinement_of T = Num 3 * (Num 1 + Num 0.1 * Math_log10 (T / Num 100000000))"

definition next_phase :: "jsnum \<Rightarrow> jsnum \<Rightarrow> phase \<Rightarrow> phase" where
  "next_phase T P ph =
     (if Num 100000000 < T \<and> Num 1000000 < P then Burn
      else if Num 50000000 < T then RampUp else ph)"

text \<open>The snapshots that the ticks of a run append to the history, oldest first.\<close>

definition tick_snapshots :: "jsnum list \<Rightarrow> simulator \<Rightarrow> snapshot list" where
  "tick_snapshots dts s =
     map (\<lambda>k. current_snapshot (run_steps (take (Suc k) dts) s)) [0..<length dts]"

text \<open>
  The simulator states that calls of the public methods produce from a freshly constructed
  simulator.
\<close>

inductive reachable :: "simulator \<Rightarrow> bool" where
  constructed: "reachable (FusionSimulator c)"
| stepped: "reachable s \<Longrightarrow> reachable (step deltaTime s)"
| controlled: "reachable s \<Longrightarrow> reachable (applyControl c s)"

text \<open>The configuration of the fusion-reactor demo: 10 million K, 5e19 per cubic metre.\<close>

definition demo_config :: config_arg where
  "demo_config = no_config\<lparr>arg_initialTemperature := Some (Num 10000000),
      arg_initialDensity := Some (Num (5 * 10 ^ 19))\<rparr>"

text \<open>The parameters that the constructor gives the stability scorer.\<close>

definition default_v5 :: v5_params where
  "default_v5 = \<lparr>barrier = Num 0.5, gamma = Num 2, inputRange_min = Num 0, inputRange_max = Num 1\<rparr>"

text \<open>
  The range of the logistic scorer with barrier 0.5 and gamma 2 on an input in \<open>[0, 1]\<close>,
  which lies strictly between 0 and 1. The comparisons are those of JavaScript: none holds
  of NaN.
\<close>

definition in_logistic_range :: "jsnum \<Rightarrow> bool" where
  "in_logistic_range x =
     (Num (1 / (1 + exp 2)) \<le> x \<and> x \<le> Num (1 / (1 + exp (- 2))) \<and> Num 0 < x \<and> x < Num 1)"

text \<open>
  The match score as the specification words it: 0.5 when no pattern has been learned,
  otherwise the largest similarity between the snapshot and a learned pattern (the values
  of the map), found by the same scan that starts from 0.
\<close>

fun best_similarity :: "plasma_state \<Rightarrow> (string \<times> pattern) list \<Rightarrow> jsnum \<Rightarrow> jsnum" where
  "best_similarity st [] best = best"
| "best_similarity st ((k, p) # rest) best =
     (let sim = compareState st (PatternObj p)
      in best_similarity st rest (if best < sim then sim else best))"

definition matchScore_spec :: "engine \<Rightarrow> plasma_state \<Rightarrow> jsnum" where
  "matchScore_spec e st =
     (if patterns e = [] then Num 0.5 else best_similarity st (patterns e) (Num 0))"

text \<open>The engine of the decision demo: barrier 0.5, gamma 2.0, threshold 0.7.\<close>

definition demo_engine_arg :: engine_arg where
  "demo_engine_arg = no_engine_arg\<lparr>arg_decisionThreshold := Some (Num 0.7),
     arg_barrier := Some (Num 0.5), arg_gamma := Some (Num 2)\<rparr>"

text \<open>The entries of the store, what it is for one of them to match a query, and the
  element of the result that \<^verbatim>\<open>retrieve\<close> makes of it.\<close>

definition entries :: "('v, 'm) memory \<Rightarrow> (string \<times> ('v, 'm) entry) list" where
  "entries mem = (case data mem of None \<Rightarrow> [] | Some d \<Rightarrow> d)"

definition entry_matches :: "('v \<Rightarrow> string) \<Rightarrow> string \<Rightarrow> string \<times> ('v, 'm) entry \<Rightarrow> bool" where
  "entry_matches stringify query ke =
     (str_includes (fst ke) query \<or> str_includes (stringify (entry_value (snd ke))) query)"

definition to_found :: "string \<times> ('v, 'm) entry \<Rightarrow> ('v, 'm) found" where
  "to_found ke = \<lparr>found_key = fst ke, found_value = entry_value (snd ke),
     found_meta = meta (snd ke), found_timestamp = entry_timestamp (snd ke)\<rparr>"

text \<open>\<^verbatim>\<open>new TwinCosmos()\<close> with no argument, and a clock that reads 0.\<close>

definition no_cosmos_arg :: cosmos_arg where
  "no_cosmos_arg = \<lparr>arg_memoryEnabled = None, arg_fusionEnabled = None,
     arg_decisionEnabled = None, arg_cosmos_reactorType = None\<rparr>"

definition zero_clock :: clock where
  "zero_clock = \<lparr>now_decide = Num 0, now_meta = Num 0, now_store = Num 0\<rparr>"

text \<open>An engine whose gamma is so large that twice its value is no double.\<close>

definition huge_gamma_arg :: engine_arg where
  "huge_gamma_arg = no_engine_arg\<lparr>arg_gamma := Some (Num (10 ^ 308))\<rparr>"

text \<open>
  The values that a double can hold, up to rounding: the special values, zero, and the
  reals between the underflow and the overflow bound.
\<close>

definition is_double :: "jsnum \<Rightarrow> bool" where
  "is_double x =
     (case x of
        Num a \<Rightarrow> a = 0 \<or> (underflow_bound < \<bar>a\<bar> \<and> \<bar>a\<bar> < overflow_bound)
      | _ \<Rightarrow> True)"

section \<open>What one tick does to each field\<close>

lemma update_state_simps [simp]:
  "state (update_state f s) = f (state s)"
  "config (update_state f s) = config s"
  "v5Params (update_state f s) = v5Params s"
  by (simp_all add: update_state_def)

lemma advance_time_simps [simp]:
  "config (advance_time dt s) = config s"
  "v5Params (advance_time dt s) = v5Params s"
  "state (advance_time dt s) = (state s)\<lparr>time := time (state s) + dt\<rparr>"
  by (simp_all add: advance_time_def)

lemma calculateFusionPower_advance_time [simp]:
  "calculateFusionPower (advance_time dt s) = calculateFusionPower s"
  by (simp add: calculateFusionPower_def)

lemma update_temperature_simps [simp]:
  "config (update_temperature dt P s) = config s"
  "v5Params (update_temperature dt P s) = v5Params s"
  "state (update_temperature dt P s) = (state s)\<lparr>temperature := heated dt P (temperature (state s))\<rparr>"
  by (simp_all add: update_temperature_def heated_def Let_def)

lemma update_density_simps [simp]:
  "config (update_density dt s) = config s"
  "v5Params (update_density dt s) = v5Params s"
  "state (update_density dt s) = (state s)\<lparr>density := fuelled dt (density (state s))\<rparr>"
  by (simp_all add: update_density_def fuelled_def Let_def)

lemma update_confinementTime_simps [simp]:
  "config (update_confinementTime s) = config s"
  "v5Params (update_confinementTime s) = v5Params s"
  "state (update_confinementTime s) = (state s)\<lparr>confinementTime := confinement_of (temperature (state s))\<rparr>"
  by (simp_all add: update_confinementTime_def confinement_of_def)

lemma update_stability_simps [simp]:
  "config (update_stability s) = config s"
  "v5Params (update_stability s) = v5Params s"
  "state (update_stability s) = (state s)\<lparr>stability := calculateV5Barrier s (calculateStability s)\<rparr>"
  by (simp_all add: update_stability_def Let_def)

lemma determine_phase_simps [simp]:
  "config (determine_phase s) = config s"
  "v5Params (determine_phase s) = v5Params s"
  "state (determine_phase s) = (state s)\<lparr>phase :=
      next_phase (temperature (state s)) (fusionPower (state s)) (phase (state s))\<rparr>"
  by (simp_all add: determine_phase_def next_phase_def)

lemma store_history_simps [simp]:
  "config (store_history s) = config s"
  "v5Params (store_history s) = v5Params s"
  "state (store_history s) = (state s)\<lparr>history := history (state s) @ [current_snapshot s]\<rparr>"
  by (simp_all add: store_history_def)

lemma limit_history_simps [simp]:
  "config (limit_history s) = config s"
  "v5Params (limit_history s) = v5Params s"
  "state (limit_history s) = (state s)\<lparr>history :=
      (if 1000 < length (history (state s)) then tl (history (state s)) else history (state s))\<rparr>"
  by (simp_all add: limit_history_def)

lemma step_config: "config (step dt s) = config s"
  by (simp add: step_def Let_def)

lemma step_v5Params: "v5Params (step dt s) = v5Params s"
  by (simp add: step_def Let_def)

lemma step_time: "time (state (step dt s)) = time (state s) + dt"
  by (simp add: step_def Let_def)

lemma step_temperature: "temperature (state (step dt s)) = heated dt (calculateFusionPower s) (temperature (state s))"
  by (simp add: step_def Let_def)

lemma step_density: "density (state (step dt s)) = fuelled dt (density (state s))"
  by (simp add: step_def Let_def)

lemma step_fusionPower: "fusionPower (state (step dt s)) = calculateFusionPower s"
  by (simp add: step_def Let_def)

lemma step_phase: "phase (state (step dt s)) =
   next_phase (heated dt (calculateFusionPower s) (temperature (state s))) (calculateFusionPower s) (phase (state s))"
  by (simp add: step_def Let_def)

lemma step_confinementTime: "confinementTime (state (step dt s)) =
   confinement_of (heated dt (calculateFusionPower s) (temperature (state s)))"
  by (simp add: step_def Let_def)

lemma current_snapshot_cong:
  "time (state a) = time (state b) \<Longrightarrow> temperature (state a) = temperature (state b) \<Longrightarrow>
   density (state a) = density (state b) \<Longrightarrow> fusionPower (state a) = fusionPower (state b) \<Longrightarrow>
   stability (state a) = stability (state b) \<Longrightarrow> phase (state a) = phase (state b) \<Longrightarrow>
   current_snapshot a = current_snapshot b"
  by (simp add: current_snapshot_def)

lemma step_history: "history (state (step dt s)) =
   (if 1000 \<le> length (history (state s))
    then tl (history (state s) @ [current_snapshot (step dt s)])
    else history (state s) @ [current_snapshot (step dt s)])"
proof -
  define s7 where "s7 = determine_phase (update_stability (update_state (\<lambda>st. st\<lparr>fusionPower := calculateFusionPower (advance_time dt s)\<rparr>)
     (update_confinementTime (update_density dt (update_temperature dt (calculateFusionPower (advance_time dt s)) (advance_time dt s))))))"
  have st: "step dt s = limit_history (store_history s7)"
    by (simp add: step_def Let_def s7_def)
  have h7: "history (state s7) = history (state s)"
    by (simp add: s7_def)
  have snap: "current_snapshot (step dt s) = current_snapshot s7"
    unfolding st by (rule current_snapshot_cong) simp_all
  show ?thesis
    unfolding snap unfolding st by (simp add: h7)
qed

section \<open>The bounded history\<close>

lemma run_steps_Nil [simp]: "run_steps [] s = s"
  by (simp add: run_steps_def)

lemma run_steps_snoc [simp]: "run_steps (dts @ [dt]) s = step dt (run_steps dts s)"
  by (simp add: run_steps_def)

lemma tick_snapshots_Nil [simp]: "tick_snapshots [] s = []"
  by (simp add: tick_snapshots_def)

lemma tick_snapshots_snoc:
  "tick_snapshots (dts @ [dt]) s = tick_snapshots dts s @ [current_snapshot (run_steps (dts @ [dt]) s)]"
  by (simp add: tick_snapshots_def)

lemma length_tick_snapshots [simp]: "length (tick_snapshots dts s) = length dts"
  by (simp add: tick_snapshots_def)

lemma history_run_steps:
  "length (history (state s)) \<le> 1000 \<Longrightarrow>
   history (state (run_steps dts s)) =
     drop (length (history (state s)) + length dts - 1000) (history (state s) @ tick_snapshots dts s)"
proof (induction dts rule: rev_induct)
  case Nil
  then show ?case by simp
next
  case (snoc dt dts)
  define xs where "xs = history (state s) @ tick_snapshots dts s"
  define x where "x = current_snapshot (run_steps (dts @ [dt]) s)"
  define m where "m = length (history (state s)) + length dts - 1000"
  define H where "H = history (state (run_steps dts s))"
  have lxs: "length xs = length (history (state s)) + length dts"
    by (simp add: xs_def)
  have ih: "H = drop m xs"
    using snoc by (simp add: H_def m_def xs_def)
  have tgt: "history (state s) @ tick_snapshots (dts @ [dt]) s = xs @ [x]"
    by (simp add: tick_snapshots_snoc xs_def x_def)
  have m_le: "m \<le> length xs"
    by (simp add: m_def lxs)
  have app: "drop m xs @ [x] = drop m (xs @ [x])"
    using m_le by simp
  have stp: "history (state (run_steps (dts @ [dt]) s)) =
      (if 1000 \<le> length H then tl (H @ [x]) else H @ [x])"
    unfolding H_def x_def run_steps_snoc by (rule step_history)
  show ?case
  proof (cases "1000 \<le> length (history (state s)) + length dts")
    case True
    then have full: "1000 \<le> length H"
      unfolding ih by (simp add: lxs m_def)
    have idx: "length (history (state s)) + length (dts @ [dt]) - 1000 = Suc m"
      using True by (simp add: m_def)
    have "history (state (run_steps (dts @ [dt]) s)) = tl (drop m xs @ [x])"
      unfolding stp using full by (simp add: ih)
    also have "\<dots> = drop (Suc m) (xs @ [x])"
      unfolding app by (simp only: drop_Suc tl_drop)
    finally show ?thesis
      unfolding tgt idx .
  next
    case False
    then have notfull: "\<not> 1000 \<le> length H"
      unfolding ih by (simp add: lxs m_def)
    have idx: "length (history (state s)) + length (dts @ [dt]) - 1000 = 0" "m = 0"
      using False by (simp_all add: m_def)
    have "history (state (run_steps (dts @ [dt]) s)) = H @ [x]"
      unfolding stp using notfull by simp
    then show ?thesis
      unfolding tgt idx ih by simp
  qed
qed

lemma history_fresh: "history (state (FusionSimulator c)) = []"
  by (simp add: FusionSimulator_def Let_def)

text \<open>
  Claim C4. For every number of ticks run on a freshly constructed simulator, with any
  step sizes, the history has \<open>min n 1000\<close> entries: it is the list of the snapshots that
  the ticks appended, oldest first, without its first \<open>n - 1000\<close> elements. After 1001
  ticks it has exactly 1000 entries and the oldest one is the snapshot that the second tick
  appended.
\<close>

theorem history_bounded_fifo:
  "length (getHistory (run_steps dts (FusionSimulator c))) = min (length dts) 1000 \<and>
   getHistory (run_steps dts (FusionSimulator c)) =
     drop (length dts - 1000) (tick_snapshots dts (FusionSimulator c)) \<and>
   (length dts = 1001 \<longrightarrow>
      length (getHistory (run_steps dts (FusionSimulator c))) = 1000 \<and>
      hd (getHistory (run_steps dts (FusionSimulator c))) =
        current_snapshot (run_steps (take 2 dts) (FusionSimulator c)))"
proof -
  let ?s = "FusionSimulator c"
  have h: "getHistory (run_steps dts ?s) = drop (length dts - 1000) (tick_snapshots dts ?s)"
    using history_run_steps [of ?s dts] by (simp add: getHistory_def history_fresh)
  have l: "length (getHistory (run_steps dts ?s)) = min (length dts) 1000"
    unfolding h by simp
  have "hd (getHistory (run_steps dts ?s)) = current_snapshot (run_steps (take 2 dts) ?s)"
    if n: "length dts = 1001"
  proof -
    have "hd (drop 1 (tick_snapshots dts ?s)) = tick_snapshots dts ?s ! 1"
      using n by (simp add: hd_drop_conv_nth)
    also have "\<dots> = current_snapshot (run_steps (take 2 dts) ?s)"
      using n by (simp add: tick_snapshots_def numeral_2_eq_2)
    finally show ?thesis
      unfolding h using n by simp
  qed
  with h l show ?thesis
    by simp
qed

theorem history_bounded_fifo_witness:
  "length (replicate 1001 (Num 1)) = 1001 \<and>
   length (getHistory (run_steps (replicate 1001 (Num 1)) (FusionSimulator no_config))) = 1000 \<and>
   hd (getHistory (run_steps (replicate 1001 (Num 1)) (FusionSimulator no_config))) =
     current_snapshot (run_steps (take 2 (replicate 1001 (Num 1))) (FusionSimulator no_config))"
  using history_bounded_fifo [of "replicate 1001 (Num 1)" no_config, THEN conjunct2, THEN conjunct2]
  by simp


section \<open>Arithmetic inside the range of the doubles\<close>

lemma bounds_wide: "underflow_bound < 1 / 10 ^ 300" "10 ^ 300 < overflow_bound"
  by (simp_all add: underflow_bound_def overflow_bound_def)

lemma fl_zero [simp]: "fl 0 = Num 0"
  using bounds_wide by (simp add: fl_def underflow_bound_def overflow_bound_def)

lemma fl_exact: "underflow_bound < \<bar>x\<bar> \<Longrightarrow> \<bar>x\<bar> < overflow_bound \<Longrightarrow> fl x = Num x"
  by (auto simp add: fl_def)

lemma fl_in_range: "1 / 10 ^ 300 \<le> \<bar>x\<bar> \<Longrightarrow> \<bar>x\<bar> \<le> 10 ^ 300 \<Longrightarrow> fl x = Num x"
  using bounds_wide by (intro fl_exact) linarith+

lemma fl_mid: "1 / 10 ^ 50 \<le> \<bar>x\<bar> \<Longrightarrow> \<bar>x\<bar> \<le> 10 ^ 50 \<Longrightarrow> fl x = Num x"
  by (rule fl_in_range)
    (auto intro: order_trans [of "1 / 10 ^ 300" "1 / 10 ^ 50"] order_trans [of _ "10 ^ 50" "10 ^ 300"])

lemma fl_cases: "\<bar>x\<bar> < overflow_bound \<Longrightarrow> fl x = Num x \<or> fl x = Num 0"
  by (auto simp add: fl_def)

lemmas tick_arith = heated_def fuelled_def minus_jsnum_def fl_mid

lemmas power_arith = calculateFusionPower_def Let_def Math_pow_def fl_mid power2_eq_square

section \<open>The stored fusion power and the phase\<close>

lemma demo_initial:
  "temperature (state (FusionSimulator demo_config)) = Num 10000000"
  "density (state (FusionSimulator demo_config)) = Num (5 * 10 ^ 19)"
  by (simp_all add: FusionSimulator_def make_config_def demo_config_def no_config_def Let_def)

lemma demo_power:
  "calculateFusionPower (FusionSimulator demo_config) = Num (3634537500 / 667)"
  by (simp add: power_arith demo_initial)

lemma demo_tick:
  "temperature (state (step (Num 1) (FusionSimulator demo_config))) = Num (53119317537 / 5336)"
  "density (state (step (Num 1) (FusionSimulator demo_config))) = Num 50949000000000000000"
  by (simp_all add: step_temperature step_density demo_power demo_initial tick_arith)

lemma demo_power_after:
  "calculateFusionPower (step (Num 1) (FusionSimulator demo_config)) =
     Num (709895116247720718268668959505939249 / 126578440740787940000000000000)"
  by (simp add: power_arith demo_tick)

text \<open>
  Claim C3. A tick stores in \<^verbatim>\<open>fusionPower\<close> the power computed from the temperature
  and density it found, for every state and step size. From a fresh simulator at 1e7 K and
  5e19 per cubic metre, one tick of step size 1.0 stores the closed form
  \<open>(5e19)\<^sup>2 \<sigma>v E\<close> with \<open>T_keV = 1e7 / 1.16e7\<close>,
  \<open>\<sigma>v = 1.1e-21 T_keV\<^sup>2 / (1 + T_keV / 15)\<close> and \<open>E = 17.6 \<times> 1.602e-13\<close>; this is
  not the power of the updated temperature and density.
\<close>

theorem fusionPower_is_pre_tick_power:
  "fusionPower (state (step deltaTime s)) = calculateFusionPower s \<and>
   fusionPower (state (step (Num 1) (FusionSimulator demo_config))) =
     Num ((5 * 10 ^ 19)\<^sup>2 *
          (11 / 10 ^ 22 * (10000000 / 11600000)\<^sup>2 / (1 + 10000000 / 11600000 / 15)) *
          (17.6 * (1602 / 10 ^ 16))) \<and>
   fusionPower (state (step (Num 1) (FusionSimulator demo_config))) \<noteq>
     calculateFusionPower (step (Num 1) (FusionSimulator demo_config))"
proof -
  have "fusionPower (state (step (Num 1) (FusionSimulator demo_config))) = Num (3634537500 / 667)"
    by (simp add: step_fusionPower demo_power)
  moreover have "(3634537500 / 667 :: real) = (5 * 10 ^ 19)\<^sup>2 *
          (11 / 10 ^ 22 * (10000000 / 11600000)\<^sup>2 / (1 + 10000000 / 11600000 / 15)) *
          (17.6 * (1602 / 10 ^ 16))"
    by (simp add: power2_eq_square)
  moreover have "(3634537500 / 667 :: real) \<noteq>
      709895116247720718268668959505939249 / 126578440740787940000000000000"
    by simp
  ultimately show ?thesis
    by (simp only: step_fusionPower demo_power_after jsnum.inject simp_thms)
qed

lemma default_initial:
  "temperature (state (FusionSimulator no_config)) = Num 100000000"
  "density (state (FusionSimulator no_config)) = Num (10 ^ 20)"
  by (simp_all add: FusionSimulator_def make_config_def no_config_def Let_def)

lemma default_power:
  "calculateFusionPower (FusionSimulator no_config) = Num (5815260000000 / 3973)"
  by (simp add: power_arith default_initial)

lemma default_tick:
  "temperature (state (step (Num 1) (FusionSimulator no_config))) = Num (399280770900 / 3973)"
  "density (state (step (Num 1) (FusionSimulator no_config))) = Num 100899000000000000000"
  by (simp_all add: step_temperature step_density default_power default_initial tick_arith)

lemma default_tick_phase:
  "phase (state (step (Num 1) (FusionSimulator no_config))) = Burn"
  by (simp add: step_phase default_power default_initial tick_arith next_phase_def)

lemma default_power_after:
  "calculateFusionPower (step (Num 1) (FusionSimulator no_config)) =
     Num (15730712765370840781562585194039401 / 10471139592898775000000000)"
  by (simp add: power_arith default_tick)

lemma default_second_tick_phase:
  "phase (state (step (Num 50) (step (Num 1) (FusionSimulator no_config)))) = RampUp"
  by (simp add: step_phase [of "Num 50"] default_power_after default_tick tick_arith next_phase_def)

text \<open>
  Claim C1, as stated, fails: the first tick of step size 1 on the default simulator
  reaches \<^verbatim>\<open>burn\<close>, and a following tick of step size 50 leaves the temperature
  between 5e7 and 1e8, which moves the phase back to \<^verbatim>\<open>ramp-up\<close>.
\<close>

theorem burn_falls_back_to_ramp_up:
  "phase (state (step (Num 1) (FusionSimulator no_config))) = Burn \<and>
   phase (state (step (Num 50) (step (Num 1) (FusionSimulator no_config)))) = RampUp"
  by (simp only: default_tick_phase default_second_tick_phase simp_thms)

lemma next_phase_cases: "next_phase T P ph = Burn \<or> next_phase T P ph = RampUp \<or> next_phase T P ph = ph"
  by (simp add: next_phase_def)

lemma step_phase_forward:
  "phase (state s) \<in> {RampUp, Burn} \<Longrightarrow> phase (state (step dt s)) \<in> {RampUp, Burn}"
  using next_phase_cases [of "heated dt (calculateFusionPower s) (temperature (state s))"
      "calculateFusionPower s" "phase (state s)"]
  by (auto simp add: step_phase)

lemma run_steps_Cons: "run_steps (dt # dts) s = run_steps dts (step dt s)"
  by (simp add: run_steps_def)

text \<open>
  Claim C1, amended. Once the phase is \<^verbatim>\<open>ramp-up\<close> or \<^verbatim>\<open>burn\<close>, it is
  \<^verbatim>\<open>ramp-up\<close> or \<^verbatim>\<open>burn\<close> after every sequence of further ticks, of any step
  sizes: no tick moves it back to \<^verbatim>\<open>ignition\<close>.
\<close>

theorem phase_never_returns_to_ignition:
  "phase (state s) \<in> {RampUp, Burn} \<Longrightarrow> phase (state (run_steps dts s)) \<in> {RampUp, Burn}"
proof (induction dts arbitrary: s)
  case Nil
  then show ?case by simp
next
  case (Cons dt dts)
  have "phase (state (step dt s)) \<in> {RampUp, Burn}"
    using Cons.prems by (rule step_phase_forward)
  then show ?case
    unfolding run_steps_Cons by (rule Cons.IH)
qed

theorem phase_never_returns_to_ignition_witness:
  "phase (state (step (Num 1) (FusionSimulator no_config))) \<in> {RampUp, Burn} \<and>
   phase (state (run_steps [Num 50] (step (Num 1) (FusionSimulator no_config)))) \<in> {RampUp, Burn}"
proof -
  have h: "phase (state (step (Num 1) (FusionSimulator no_config))) \<in> {RampUp, Burn}"
    by (simp add: default_tick_phase)
  show ?thesis
    using h phase_never_returns_to_ignition [OF h, of "[Num 50]"] by simp
qed

section \<open>The range of the stability\<close>

lemma applyControl_v5Params: "v5Params (applyControl c s) = v5Params s"
  by (simp add: applyControl_def Let_def split: option.split)

lemma reachable_v5Params: "reachable s \<Longrightarrow> v5Params s = default_v5"
proof (induction rule: reachable.induct)
  case (constructed c)
  show ?case by (simp add: FusionSimulator_def Let_def default_v5_def)
next
  case (stepped s deltaTime)
  then show ?case by (simp add: step_v5Params)
next
  case (controlled s c)
  then show ?case by (simp add: applyControl_v5Params)
qed

lemma normalizeInput_cases:
  "normalizeInput x = NaN \<and> x = NaN \<or> (\<exists>c. normalizeInput x = Num c \<and> 0 \<le> c \<and> c \<le> 1)"
  by (cases x) (auto simp add: normalizeInput_def)

lemma normalizeInput_Num: "normalizeInput (Num a) = Num (max 0 (min 1 a))"
  by (auto simp add: normalizeInput_def)

lemma exp_two_bounds: "exp (2::real) \<le> 9" "1 / 9 \<le> exp (- 2 :: real)"
proof -
  have "exp (2::real) = exp 1 * exp 1"
    by (simp flip: exp_add)
  also have "\<dots> \<le> 3 * 3"
    by (intro mult_mono exp_le) simp_all
  finally show a: "exp (2::real) \<le> 9"
    by simp
  have "exp (- 2 :: real) = 1 / exp 2"
    by (simp add: exp_minus inverse_eq_divide)
  moreover have "1 / 9 \<le> 1 / exp (2::real)"
    using a by (intro divide_left_mono) simp_all
  ultimately show "1 / 9 \<le> exp (- 2 :: real)"
    by simp
qed

lemma fl_unit: "1 / 10 \<le> \<bar>x\<bar> \<Longrightarrow> \<bar>x\<bar> \<le> 10 \<Longrightarrow> fl x = Num x"
  by (rule fl_mid) (auto intro: order_trans [of "1 / 10 ^ 50" "1 / 10"] order_trans [of _ 10 "10 ^ 50"])

lemma logistic_bounds:
  fixes e :: real
  assumes "\<bar>e\<bar> \<le> 2"
  shows "1 / (1 + exp 2) \<le> 1 / (1 + exp e)"
    and "1 / (1 + exp e) \<le> 1 / (1 + exp (- 2))"
    and "0 < 1 / (1 + exp e)"
    and "1 / (1 + exp e) < 1"
    and "1 / 10 \<le> 1 / (1 + exp e)"
    and "1 + exp e \<le> 10"
    and "1 / 9 \<le> exp e"
proof -
  have pos: "0 < exp e" by simp
  have up: "exp e \<le> exp 2" using assms by simp
  have lo: "exp (- 2) \<le> exp e" using assms by simp
  show "1 / (1 + exp 2) \<le> 1 / (1 + exp e)"
    using up pos by (intro divide_left_mono) (auto simp add: add_pos_pos)
  show "1 / (1 + exp e) \<le> 1 / (1 + exp (- 2))"
    using lo by (intro divide_left_mono) (auto simp add: add_pos_pos)
  show "0 < 1 / (1 + exp e)"
    using pos by (simp add: add_pos_pos)
  show "1 / (1 + exp e) < 1"
    using pos by (simp add: add_pos_pos)
  show ten: "1 + exp e \<le> 10"
    using up exp_two_bounds(1) by linarith
  show "1 / 10 \<le> 1 / (1 + exp e)"
    using ten pos by (intro divide_left_mono) (auto simp add: add_pos_pos)
  show "1 / 9 \<le> exp e"
    using lo exp_two_bounds(2) by linarith
qed

lemma overflow_bound_big: "10 < overflow_bound"
  using bounds_wide(2) by (rule less_trans [rotated]) simp

lemma exponent_of_clamped:
  assumes "0 \<le> c" "c \<le> 1"
  shows "\<exists>e. \<bar>e\<bar> \<le> 2 \<and> - Num 2 * Num 2 * (Num c - Num (1 / 2)) = Num e"
proof -
  have f4: "fl (- 4) = Num (- 4)"
    by (simp add: fl_unit)
  have four: "- Num 2 * Num 2 = Num (- 4)"
    by (simp add: f4)
  have "\<bar>c - 1 / 2\<bar> < overflow_bound"
    using assms overflow_bound_big by (simp add: abs_if)
  then consider "fl (c - 1 / 2) = Num (c - 1 / 2)" | "fl (c - 1 / 2) = Num 0"
    using fl_cases by blast
  then obtain y where y: "Num c - Num (1 / 2) = Num y" "\<bar>y\<bar> \<le> 1 / 2"
  proof cases
    case 1
    then have "Num c - Num (1 / 2) = Num (c - 1 / 2)"
      by (simp add: minus_jsnum_def)
    moreover have "\<bar>c - 1 / 2\<bar> \<le> 1 / 2"
      using assms by (simp add: abs_if)
    ultimately show ?thesis
      using that by blast
  next
    case 2
    then have "Num c - Num (1 / 2) = Num 0"
      by (simp add: minus_jsnum_def)
    then show ?thesis
      using that [of 0] by simp
  qed
  have "\<bar>- 4 * y\<bar> < overflow_bound"
    using y(2) overflow_bound_big by (simp add: abs_mult)
  then consider "fl (- 4 * y) = Num (- 4 * y)" | "fl (- 4 * y) = Num 0"
    using fl_cases by blast
  then show ?thesis
  proof cases
    case 1
    have "\<bar>- 4 * y\<bar> \<le> 2"
      using y(2) by (simp add: abs_mult)
    moreover have "- Num 2 * Num 2 * (Num c - Num (1 / 2)) = Num (- 4 * y)"
      unfolding four y(1) using 1 by simp
    ultimately show ?thesis
      by blast
  next
    case 2
    have "- Num 2 * Num 2 * (Num c - Num (1 / 2)) = Num 0"
      unfolding four y(1) using 2 by simp
    then show ?thesis
      by (intro exI [of _ 0]) simp
  qed
qed

lemma V5_of_Num:
  assumes "v5Params s = default_v5" "normalizeInput x = Num c" "0 \<le> c" "c \<le> 1"
  shows "\<exists>e. \<bar>e\<bar> \<le> 2 \<and> calculateV5Barrier s x = Num (1 / (1 + exp e))"
proof -
  obtain e where e: "\<bar>e\<bar> \<le> 2" "- Num 2 * Num 2 * (Num c - Num (1 / 2)) = Num e"
    using exponent_of_clamped [OF assms(3,4)] by blast
  note b = logistic_bounds [OF e(1)]
  have pos: "0 < exp e"
    by simp
  have "fl (exp e) = Num (exp e)"
    using b(7) b(6) pos by (intro fl_unit) linarith+
  then have x1: "Math_exp (Num e) = Num (exp e)"
    by simp
  have "fl (1 + exp e) = Num (1 + exp e)"
    using b(6) pos by (intro fl_unit) linarith+
  then have x2: "Num 1 + Num (exp e) = Num (1 + exp e)"
    by simp
  have nz: "1 + exp e \<noteq> 0"
    using pos by linarith
  have "fl (1 / (1 + exp e)) = Num (1 / (1 + exp e))"
    using b(5) b(4) b(3) by (intro fl_unit) linarith+
  then have x3: "Num 1 / Num (1 + exp e) = Num (1 / (1 + exp e))"
    using nz by simp
  have bg: "barrier (v5Params s) = Num (1 / 2)" "gamma (v5Params s) = Num 2"
    using assms(1) by (simp_all add: default_v5_def)
  have "calculateV5Barrier s x =
      Num 1 / (Num 1 + Math_exp (- Num 2 * Num 2 * (Num c - Num (1 / 2))))"
    unfolding calculateV5Barrier_def Let_def bg assms(2) ..
  then have "calculateV5Barrier s x = Num (1 / (1 + exp e))"
    by (simp only: e(2) x1 x2 x3)
  then show ?thesis
    using e(1) by blast
qed

lemma V5_of_NaN:
  "normalizeInput x = NaN \<Longrightarrow> calculateV5Barrier s x = NaN"
  by (cases "- Num 2 * gamma (v5Params s)") (simp_all add: calculateV5Barrier_def Let_def minus_jsnum_def)

lemma calculateStability_cong:
  "density (state a) = density (state b) \<Longrightarrow> temperature (state a) = temperature (state b) \<Longrightarrow>
   confinementTime (state a) = confinementTime (state b) \<Longrightarrow>
   calculateStability a = calculateStability b"
  by (simp add: calculateStability_def)

lemma calculateV5Barrier_cong:
  "v5Params a = v5Params b \<Longrightarrow> calculateV5Barrier a x = calculateV5Barrier b x"
  by (simp add: calculateV5Barrier_def)

lemma step_stability:
  "stability (state (step dt s)) = calculateV5Barrier s (calculateStability (step dt s))"
proof -
  define s5 where "s5 = update_state (\<lambda>st. st\<lparr>fusionPower := calculateFusionPower (advance_time dt s)\<rparr>)
     (update_confinementTime (update_density dt (update_temperature dt (calculateFusionPower (advance_time dt s)) (advance_time dt s))))"
  have st: "step dt s = limit_history (store_history (determine_phase (update_stability s5)))"
    by (simp add: step_def Let_def s5_def)
  have a: "stability (state (step dt s)) = calculateV5Barrier s5 (calculateStability s5)"
    unfolding st by simp
  have b: "calculateStability (step dt s) = calculateStability s5"
    unfolding st by (rule calculateStability_cong) simp_all
  have c: "calculateV5Barrier s5 x = calculateV5Barrier s x" for x
    by (rule calculateV5Barrier_cong) (simp add: s5_def)
  show ?thesis
    by (simp only: a b c)
qed

lemma V5_range:
  assumes "v5Params s = default_v5"
  shows "(calculateV5Barrier s x = NaN \<or> in_logistic_range (calculateV5Barrier s x)) \<and>
         (calculateV5Barrier s x = NaN) = (x = NaN)"
proof -
  from normalizeInput_cases [of x] show ?thesis
  proof
    assume n: "normalizeInput x = NaN \<and> x = NaN"
    then have "calculateV5Barrier s x = NaN"
      using V5_of_NaN [of x s] by blast
    then show ?thesis
      using n by simp
  next
    assume "\<exists>c. normalizeInput x = Num c \<and> 0 \<le> c \<and> c \<le> 1"
    then obtain c where c: "normalizeInput x = Num c" "0 \<le> c" "c \<le> 1"
      by blast
    then have xn: "x \<noteq> NaN"
      by (auto simp add: normalizeInput_def)
    obtain e where e: "\<bar>e\<bar> \<le> 2" "calculateV5Barrier s x = Num (1 / (1 + exp e))"
      using V5_of_Num [OF assms c] by blast
    show ?thesis
      using logistic_bounds [OF e(1)] xn by (simp add: e(2) in_logistic_range_def)
  qed
qed

text \<open>
  Claim C10, amended. After every tick of a reachable simulator, the stored stability is
  NaN or lies in \<open>[1 / (1 + e\<^sup>2), 1 / (1 + e\<^sup>-\<^sup>2)]\<close>, strictly between 0 and 1; it is NaN
  exactly when the clamped triple product that \<^verbatim>\<open>calculateStability\<close> computes from
  the updated temperature, density and confinement time is NaN.
\<close>

theorem stability_nan_or_in_range:
  assumes "reachable s"
  shows "(stability (state (step deltaTime s)) = NaN \<or>
          in_logistic_range (stability (state (step deltaTime s)))) \<and>
         (stability (state (step deltaTime s)) = NaN) =
           (calculateStability (step deltaTime s) = NaN)"
proof -
  have v: "v5Params s = default_v5"
    using assms by (rule reachable_v5Params)
  show ?thesis
    unfolding step_stability using v by (rule V5_range)
qed

lemma default_hot_tick:
  "temperature (state (step (Num 100) (FusionSimulator no_config))) = Num 0"
  "density (state (step (Num 100) (FusionSimulator no_config))) = Num 180000000000000000000"
  by (simp_all add: step_temperature step_density default_power default_initial tick_arith)

lemma default_hot_tick_stability:
  "stability (state (step (Num 100) (FusionSimulator no_config))) = NaN"
proof -
  have c: "confinementTime (state (step (Num 100) (FusionSimulator no_config))) = NegInf"
    using default_hot_tick(1)
    by (simp add: step_confinementTime step_temperature confinement_of_def)
  have "calculateStability (step (Num 100) (FusionSimulator no_config)) = NaN"
    by (simp add: calculateStability_def Let_def c default_hot_tick fl_mid)
  then show ?thesis
    by (simp add: step_stability V5_of_NaN normalizeInput_def)
qed

text \<open>
  Claim C10, as stated, fails: a tick of step size 100 on the default simulator multiplies
  the temperature by \<open>1 - 0.01 \<times> 100 = 0\<close>; \<^verbatim>\<open>Math.log10(0)\<close> is \<open>-Infinity\<close>, the
  triple product \<open>0 \<times> -Infinity\<close> is NaN, and the stored stability is NaN.
\<close>

theorem stability_nan_after_full_cooling:
  "stability (state (step (Num 100) (FusionSimulator no_config))) = NaN \<and>
   \<not> (Num 0 < stability (state (step (Num 100) (FusionSimulator no_config))) \<and>
      stability (state (step (Num 100) (FusionSimulator no_config))) < Num 1)"
  by (simp add: default_hot_tick_stability)

text \<open>The first tick of step size 1 on the default simulator: the stability is in range.\<close>

lemma Math_min_Num: "Math_min (Num a) (Num b) = Num (min a b)"
  by (simp add: min_def)

lemma log10_small: "0 \<le> log 10 (399280770900 / 3973 / 100000000)"
    "log 10 (399280770900 / 3973 / 100000000) \<le> 1"
proof -
  have "(1::real) \<le> 399280770900 / 3973 / 100000000"
    by simp
  then show "0 \<le> log 10 (399280770900 / 3973 / 100000000)"
    by (intro zero_le_log_cancel_iff [THEN iffD2]) simp_all
  have "(399280770900 / 3973 / 100000000 :: real) \<le> 10"
    by simp
  then have "log 10 (399280770900 / 3973 / 100000000) \<le> log 10 10"
    by (intro log_le_cancel_iff [THEN iffD2]) simp_all
  then show "log 10 (399280770900 / 3973 / 100000000) \<le> 1"
    by simp
qed

lemma fl_small_cases:
  assumes "0 \<le> x" "x \<le> 1"
  shows "\<exists>z. fl x = Num z \<and> 0 \<le> z \<and> z \<le> x"
proof -
  have "\<bar>x\<bar> < overflow_bound"
    using assms overflow_bound_big by simp
  then show ?thesis
    using fl_cases [of x] assms by auto
qed

lemma default_tick_confinement:
  "\<exists>c. confinementTime (state (step (Num 1) (FusionSimulator no_config))) = Num c \<and>
       3 \<le> c \<and> c \<le> 33 / 10"
proof -
  define l :: real where "l = log 10 (399280770900 / 3973 / 100000000)"
  have l: "0 \<le> l" "l \<le> 1"
    unfolding l_def by (rule log10_small)+
  have lg: "Math_log10 (Num (399280770900 / 3973) / Num 100000000) = fl l"
    by (simp add: fl_mid l_def)
  obtain z where z: "fl l = Num z" "0 \<le> z" "z \<le> l"
    using fl_small_cases [OF l] by blast
  have "0 \<le> 1 / 10 * z" "1 / 10 * z \<le> 1"
    using z l by simp_all
  then obtain w where w: "fl (1 / 10 * z) = Num w" "0 \<le> w" "w \<le> 1 / 10 * z"
    using fl_small_cases by blast
  have one: "fl (1 + w) = Num (1 + w)"
    using w z l by (intro fl_unit) simp_all
  have three: "fl (3 * (1 + w)) = Num (3 * (1 + w))"
    using w z l by (intro fl_unit) simp_all
  have "confinementTime (state (step (Num 1) (FusionSimulator no_config))) =
      Num 3 * (Num 1 + Num (1 / 10) * Math_log10 (Num (399280770900 / 3973) / Num 100000000))"
    by (simp add: step_confinementTime confinement_of_def default_tick [unfolded step_temperature])
  also have "\<dots> = Num (3 * (1 + w))"
    by (simp only: lg z(1) times_jsnum.simps(1) w(1) plus_jsnum.simps(1) one three)
  finally show ?thesis
    using w z l by (intro exI [of _ "3 * (1 + w)"]) simp
qed

lemma default_tick_stability_input:
  "\<exists>a. calculateStability (step (Num 1) (FusionSimulator no_config)) = Num a"
proof -
  obtain c where c: "confinementTime (state (step (Num 1) (FusionSimulator no_config))) = Num c"
      "3 \<le> c" "c \<le> 33 / 10"
    using default_tick_confinement by blast
  have tau: "Num c / Num 3 = Num (c / 3)"
    using c by (simp add: fl_unit)
  have nT: "Num 100899000000000000000 / Num (10 ^ 20) * (Num (399280770900 / 3973) / Num 100000000) =
      Num (100899 / 100000 * (399280770900 / 3973 / 100000000))"
    by (simp add: fl_mid)
  let ?p = "100899 / 100000 * (399280770900 / 3973 / 100000000) * (c / 3) :: real"
  have pb: "1 \<le> ?p" "?p \<le> 2"
    using c by simp_all
  have p1: "fl ?p = Num ?p"
    using pb by (intro fl_unit) simp_all
  have p2: "fl (?p / (3 * 10 ^ 21)) = Num (?p / (3 * 10 ^ 21))"
    using pb by (intro fl_mid) (simp_all add: field_simps)
  have "calculateStability (step (Num 1) (FusionSimulator no_config)) =
      Math_min (Num 1) (Num 100899000000000000000 / Num (10 ^ 20) *
        (Num (399280770900 / 3973) / Num 100000000) * (Num c / Num 3) / Num (3 * 10 ^ 21))"
    by (simp add: calculateStability_def Let_def c(1) default_tick)
  also have "\<dots> = Math_min (Num 1) (Num (?p / (3 * 10 ^ 21)))"
    unfolding nT tau using p1 p2 by simp
  finally show ?thesis
    unfolding Math_min_Num by blast
qed

theorem stability_nan_or_in_range_witness:
  "reachable (FusionSimulator no_config) \<and>
   calculateStability (step (Num 1) (FusionSimulator no_config)) \<noteq> NaN \<and>
   in_logistic_range (stability (state (step (Num 1) (FusionSimulator no_config))))"
proof -
  have r: "reachable (FusionSimulator no_config)"
    by (rule reachable.constructed)
  have n: "calculateStability (step (Num 1) (FusionSimulator no_config)) \<noteq> NaN"
    using default_tick_stability_input by auto
  show ?thesis
    using r n stability_nan_or_in_range [OF r, of "Num 1"] by blast
qed

section \<open>The scorer at its barrier\<close>

lemma logistic_at_zero: "Num 1 / (Num 1 + Math_exp (Num 0)) = Num (1 / 2)"
  by (simp add: fl_unit)

lemma times_zero_finite: "\<bar>a\<bar> < overflow_bound \<Longrightarrow> fl a * Num 0 = Num 0"
  using fl_cases [of a] by auto

lemma minus_self: "Num B - Num B = Num 0"
  by (simp add: minus_jsnum_def)

lemma logistic_at_barrier:
  assumes "0 < g" "2 * g < overflow_bound"
  shows "Num 1 / (Num 1 + Math_exp (- Num 2 * Num g * (Num B - Num B))) = Num (1 / 2)"
proof -
  have "- Num 2 * Num g = fl (- 2 * g)"
    by simp
  moreover have "\<bar>- 2 * g\<bar> < overflow_bound"
    using assms by simp
  ultimately have "- Num 2 * Num g * (Num B - Num B) = Num 0"
    unfolding minus_self by (simp only: times_zero_finite)
  then show ?thesis
    by (simp only: logistic_at_zero)
qed

text \<open>
  Claim C5, amended. For every barrier \<open>B\<close> in \<open>[0, 1]\<close> and every \<open>gamma > 0\<close> whose
  double \<open>2 gamma\<close> is finite (gamma up to half of \<open>Number.MAX_VALUE\<close>), the logistic
  scorer at an input equal to the barrier returns exactly one half, whatever gamma is: in
  the stability path (\<^verbatim>\<open>calculateV5Barrier\<close>, which clamps its input to \<open>[0, 1]\<close>
  first) and in the confidence path (\<^verbatim>\<open>calculateDecision\<close>, whose input is the match
  score).
\<close>

theorem scorer_at_barrier_is_half:
  assumes "0 \<le> B" "B \<le> 1" "0 < g" "2 * g < overflow_bound"
  shows "(barrier (v5Params s) = Num B \<and> gamma (v5Params s) = Num g \<longrightarrow>
            calculateV5Barrier s (Num B) = Num (1 / 2)) \<and>
         (e_barrier (e_v5Params e) = Num B \<and> e_gamma (e_v5Params e) = Num g \<and>
          calculateMatchScore e inp = Num B \<longrightarrow>
            probability (calculateDecision e inp) = Num (1 / 2) \<and>
            v5_confidence (calculateDecision e inp) = Num (1 / 2))"
proof -
  have n: "normalizeInput (Num B) = Num B"
    using assms(1,2) by (simp add: normalizeInput_Num)
  note l = logistic_at_barrier [OF assms(3,4), of B]
  have one: "calculateV5Barrier s (Num B) = Num (1 / 2)"
    if "barrier (v5Params s) = Num B" "gamma (v5Params s) = Num g"
    unfolding calculateV5Barrier_def Let_def n that by (rule l)
  have two: "probability (calculateDecision e inp) = Num (1 / 2) \<and>
      v5_confidence (calculateDecision e inp) = Num (1 / 2)"
    if "e_barrier (e_v5Params e) = Num B" "e_gamma (e_v5Params e) = Num g"
      "calculateMatchScore e inp = Num B"
    unfolding calculateDecision_def Let_def that by (simp only: l v5_result.simps simp_thms)
  from one two show ?thesis
    by blast
qed

theorem scorer_at_barrier_is_half_witness:
  "(0::real) \<le> 1 / 2 \<and> (1 / 2 :: real) \<le> 1 \<and> (0::real) < 2 \<and> 2 * (2::real) < overflow_bound \<and>
   barrier (v5Params (FusionSimulator no_config)) = Num (1 / 2) \<and>
   gamma (v5Params (FusionSimulator no_config)) = Num 2 \<and>
   calculateV5Barrier (FusionSimulator no_config) (Num (1 / 2)) = Num (1 / 2) \<and>
   e_barrier (e_v5Params (DecisionEngine demo_engine_arg)) = Num (1 / 2) \<and>
   e_gamma (e_v5Params (DecisionEngine demo_engine_arg)) = Num 2 \<and>
   calculateMatchScore (DecisionEngine demo_engine_arg) (state (FusionSimulator no_config)) =
     Num (1 / 2) \<and>
   probability (calculateDecision (DecisionEngine demo_engine_arg)
     (state (FusionSimulator no_config))) = Num (1 / 2) \<and>
   v5_confidence (calculateDecision (DecisionEngine demo_engine_arg)
     (state (FusionSimulator no_config))) = Num (1 / 2)"
proof -
  have a: "barrier (v5Params (FusionSimulator no_config)) = Num (1 / 2)"
      "gamma (v5Params (FusionSimulator no_config)) = Num 2"
    by (simp_all add: FusionSimulator_def Let_def)
  have b: "e_barrier (e_v5Params (DecisionEngine demo_engine_arg)) = Num (1 / 2)"
      "e_gamma (e_v5Params (DecisionEngine demo_engine_arg)) = Num 2"
      "calculateMatchScore (DecisionEngine demo_engine_arg) (state (FusionSimulator no_config)) =
         Num (1 / 2)"
    by (simp_all add: DecisionEngine_def demo_engine_arg_def no_engine_arg_def
        calculateMatchScore_def)
  have h: "(0::real) \<le> 1 / 2" "(1 / 2 :: real) \<le> 1" "(0::real) < 2" "2 * (2::real) < overflow_bound"
    using overflow_bound_big by simp_all
  show ?thesis
    using a b h scorer_at_barrier_is_half [OF h, of "FusionSimulator no_config"
        "DecisionEngine demo_engine_arg" "state (FusionSimulator no_config)"]
    by simp
qed

lemma huge_gamma_engine:
  "e_barrier (e_v5Params (DecisionEngine huge_gamma_arg)) = Num (1 / 2)"
  "e_gamma (e_v5Params (DecisionEngine huge_gamma_arg)) = Num (10 ^ 308)"
  "calculateMatchScore (DecisionEngine huge_gamma_arg) st = Num (1 / 2)"
  by (simp_all add: DecisionEngine_def huge_gamma_arg_def no_engine_arg_def calculateMatchScore_def)

lemma huge_gamma_overflows: "- Num 2 * Num (10 ^ 308) = NegInf"
  by (simp add: fl_def overflow_bound_def)

lemma huge_gamma_probability:
  "probability (calculateDecision (DecisionEngine huge_gamma_arg) st) = NaN"
  unfolding calculateDecision_def Let_def huge_gamma_engine huge_gamma_overflows minus_self
  by simp

text \<open>
  Claim C5, as stated, fails: in \<^verbatim>\<open>new DecisionEngine({ gamma: 1e308 })\<close> the barrier
  is 0.5 and the match score of a fresh engine is 0.5, but \<open>-2 \<times> 1e308\<close> overflows to
  \<open>-Infinity\<close>, \<open>-Infinity \<times> 0\<close> is NaN, and the probability is NaN, not one half.
\<close>

theorem scorer_at_barrier_nan_when_gamma_overflows:
  "(0::real) \<le> 1 / 2 \<and> (1 / 2 :: real) \<le> 1 \<and> (0::real) < 10 ^ 308 \<and>
   e_barrier (e_v5Params (DecisionEngine huge_gamma_arg)) = Num (1 / 2) \<and>
   e_gamma (e_v5Params (DecisionEngine huge_gamma_arg)) = Num (10 ^ 308) \<and>
   calculateMatchScore (DecisionEngine huge_gamma_arg) (getState (FusionSimulator no_config)) =
     Num (1 / 2) \<and>
   probability (calculateDecision (DecisionEngine huge_gamma_arg)
     (getState (FusionSimulator no_config))) = NaN \<and>
   probability (calculateDecision (DecisionEngine huge_gamma_arg)
     (getState (FusionSimulator no_config))) \<noteq> Num (1 / 2)"
  by (simp add: huge_gamma_engine huge_gamma_probability)

section \<open>External control\<close>

lemma fl_one: "fl 1 = Num 1"
  by (simp add: fl_unit)

lemma times_one: "is_double x \<Longrightarrow> x * Num 1 = x"
  by (cases x) (auto simp add: is_double_def fl_exact)

text \<open>
  Claim C8, as stated, fails for the magnetic field: a value of 0 is falsy, so
  \<^verbatim>\<open>applyControl({ magneticField: 0 })\<close> leaves the configured field (5 by default)
  as it is.
\<close>

theorem applyControl_zero_field_ignored:
  "magneticField (config (applyControl
      \<lparr>ctl_heating = None, ctl_fueling = None, ctl_magneticField = Some (Num 0)\<rparr>
      (FusionSimulator no_config))) = Num 5 \<and>
   magneticField (config (applyControl
      \<lparr>ctl_heating = None, ctl_fueling = None, ctl_magneticField = Some (Num 0)\<rparr>
      (FusionSimulator no_config))) \<noteq> Num 0"
  by (simp add: applyControl_def Let_def FusionSimulator_def make_config_def no_config_def)

text \<open>
  Claim C8, amended. With only a heating property, whatever its value,
  \<^verbatim>\<open>applyControl\<close> changes nothing. With a finite fueling value \<open>f\<close> it multiplies the
  density by \<open>1 + f\<close> and changes nothing else: for \<open>f\<close> other than 0 the code does so,
  and for \<open>f = 0\<close> it changes nothing, which is the same for every density that a double
  can hold. With a finite magnetic field value \<open>b\<close> other than 0 it overwrites
  \<^verbatim>\<open>config.magneticField\<close> with \<open>b\<close> and changes nothing else, and with \<open>b = 0\<close> it
  changes nothing.
\<close>

theorem applyControl_frame:
  "applyControl \<lparr>ctl_heating = h, ctl_fueling = None, ctl_magneticField = None\<rparr> s = s \<and>
   (f \<noteq> 0 \<or> is_double (density (state s)) \<longrightarrow>
    applyControl \<lparr>ctl_heating = h, ctl_fueling = Some (Num f), ctl_magneticField = None\<rparr> s =
      s\<lparr>state := (state s)\<lparr>density := density (state s) * (Num 1 + Num f)\<rparr>\<rparr>) \<and>
   applyControl \<lparr>ctl_heating = h, ctl_fueling = Some (Num 0), ctl_magneticField = None\<rparr> s = s \<and>
   applyControl \<lparr>ctl_heating = h, ctl_fueling = None, ctl_magneticField = Some (Num b)\<rparr> s =
     (if b = 0 then s else s\<lparr>config := (config s)\<lparr>magneticField := Num b\<rparr>\<rparr>)"
  by (auto simp add: applyControl_def Let_def update_state_def fl_one times_one split: option.split)

theorem applyControl_frame_witness:
  "is_double (density (state (FusionSimulator no_config))) \<and>
   applyControl \<lparr>ctl_heating = None, ctl_fueling = Some (Num 0), ctl_magneticField = None\<rparr>
       (FusionSimulator no_config) =
     (FusionSimulator no_config)\<lparr>state := (state (FusionSimulator no_config))
        \<lparr>density := density (state (FusionSimulator no_config)) * (Num 1 + Num 0)\<rparr>\<rparr> \<and>
   density (state (FusionSimulator no_config)) * (Num 1 + Num 0) = Num (10 ^ 20)"
proof -
  have d: "density (state (FusionSimulator no_config)) = Num (10 ^ 20)"
    by (rule default_initial)
  have i: "is_double (density (state (FusionSimulator no_config)))"
    unfolding d using bounds_wide by (simp add: is_double_def)
  have m: "density (state (FusionSimulator no_config)) * (Num 1 + Num 0) = Num (10 ^ 20)"
    unfolding d by (simp add: fl_mid)
  show ?thesis
    using i m applyControl_frame [of None "FusionSimulator no_config" 0 0,
        THEN conjunct2, THEN conjunct1]
    by blast
qed

section \<open>The decision engine: match score and learning\<close>

lemma compareState_KeyString: "compareState st (KeyString k) = Num 0"
  by (simp add: compareState_def)

lemma best_match_zero: "best_match st ps (Num 0) = Num 0"
  by (induction ps) (auto simp add: compareState_KeyString)

lemma calculateMatchScore_cases:
  "calculateMatchScore e st = (if patterns e = [] then Num 0.5 else Num 0)"
  by (simp add: calculateMatchScore_def best_match_zero)

lemma learn_currentBest:
  "currentBest (learn toStr st dec e) =
     (if Num 0.5 < stability st then actions dec else currentBest e)"
  by (simp add: learn_def Let_def)

lemma learn_patterns_fresh:
  "patterns e = [] \<Longrightarrow> patterns (learn toStr st dec e) =
     [(hashState toStr st,
       \<lparr>p_temperature = temperature st, p_density = density st, p_stability = stability st,
        p_fusionPower = fusionPower st, count = Num 1,
        totalScore = (if Num 0.5 < stability st then Num 1 else Num 0)\<rparr>)]"
  by (simp add: learn_def Let_def map_set_def fl_one)

lemma decide_patterns_fresh:
  "patterns e = [] \<Longrightarrow> patterns (snd (decide toStr now st e)) =
     [(hashState toStr st,
       \<lparr>p_temperature = temperature st, p_density = density st, p_stability = stability st,
        p_fusionPower = fusionPower st, count = Num 1,
        totalScore = (if Num 0.5 < stability st then Num 1 else Num 0)\<rparr>)]"
  by (simp add: decide_def Let_def learn_patterns_fresh)

lemma fresh_engine_patterns: "patterns (DecisionEngine c) = []"
  by (simp add: DecisionEngine_def)

lemma fresh_state:
  "state (FusionSimulator no_config) =
     \<lparr>temperature = Num 100000000, density = Num (10 ^ 20), confinementTime = Num 3,
      fusionPower = Num 0, stability = Num 0.5, phase = Ignition, time = Num 0, history = []\<rparr>"
  by (simp add: FusionSimulator_def make_config_def no_config_def Let_def)

text \<open>
  Claim C2 against the code. The match score is 0.5 when no pattern has been learned, and
  0 as soon as one has: the scan hands \<^verbatim>\<open>compareState\<close> the keys of the map, strings
  that define none of the four properties. After one \<^verbatim>\<open>decide\<close> on the state of a
  fresh simulator, the match score of that same state is 0, where the largest similarity
  to a learned pattern is 1.
\<close>

theorem match_score_ignores_learned_patterns:
  "calculateMatchScore e st = (if patterns e = [] then Num 0.5 else Num 0) \<and>
   calculateMatchScore
     (snd (decide toStr now (getState (FusionSimulator no_config)) (DecisionEngine no_engine_arg)))
     (getState (FusionSimulator no_config)) = Num 0 \<and>
   matchScore_spec
     (snd (decide toStr now (getState (FusionSimulator no_config)) (DecisionEngine no_engine_arg)))
     (getState (FusionSimulator no_config)) = Num 1"
  by (simp add: calculateMatchScore_cases matchScore_spec_def getState_def
      decide_patterns_fresh fresh_engine_patterns fresh_state compareState_def state_prop_def
      minus_jsnum_def fl_mid)

text \<open>
  Claim C7. A call of \<^verbatim>\<open>decide\<close> overwrites the three current-best labels with the
  labels it chose if the stability of the snapshot exceeds 0.5, and leaves them as they
  were otherwise.
\<close>

theorem currentBest_overwritten_iff_stable:
  "currentBest (snd (decide toStr now st e)) =
     (if Num 0.5 < stability st then actions (fst (decide toStr now st e)) else currentBest e)"
  by (simp add: decide_def Let_def learn_currentBest)

section \<open>The store: substring retrieval\<close>

lemma starts_with_iff: "starts_with s q \<longleftrightarrow> (\<exists>r. s = q @ r)"
  by (induction s q rule: starts_with.induct) auto

lemma str_includes_iff: "str_includes s q \<longleftrightarrow> (\<exists>p r. s = p @ q @ r)"
proof (induction s)
  case Nil
  then show ?case by auto
next
  case (Cons c cs)
  show ?case
  proof
    assume "str_includes (c # cs) q"
    then consider "starts_with (c # cs) q" | "str_includes cs q"
      by auto
    then show "\<exists>p r. c # cs = p @ q @ r"
    proof cases
      case 1
      then obtain r where "c # cs = q @ r"
        unfolding starts_with_iff by blast
      then have "c # cs = [] @ q @ r" by simp
      then show ?thesis by blast
    next
      case 2
      then obtain p r where "cs = p @ q @ r"
        using Cons.IH by blast
      then have "c # cs = (c # p) @ q @ r" by simp
      then show ?thesis by blast
    qed
  next
    assume "\<exists>p r. c # cs = p @ q @ r"
    then obtain p r where pr: "c # cs = p @ q @ r"
      by blast
    show "str_includes (c # cs) q"
    proof (cases p)
      case Nil
      then have "starts_with (c # cs) q"
        unfolding starts_with_iff using pr by auto
      then show ?thesis by simp
    next
      case (Cons a p')
      then have "cs = p' @ q @ r"
        using pr by simp
      then have "str_includes cs q"
        using Cons.IH by blast
      then show ?thesis by simp
    qed
  qed
qed

lemma retrieve_loop_filter:
  "retrieve_loop stringify query d results =
     results @ map to_found (filter (entry_matches stringify query) d)"
  by (induction d arbitrary: results) (auto simp add: entry_matches_def to_found_def)

lemma retrieve_filter:
  "retrieve stringify query mem =
     map to_found (filter (entry_matches stringify query) (entries mem))"
  by (simp add: retrieve_def entries_def retrieve_loop_filter split: option.split)

lemma update_member: "(k, v) \<in> set (AList.update k v al)"
  by (induction al) auto

lemma entries_store:
  "entries (snd (store now key v m mem)) =
     AList.update key \<lparr>entry_value = v, meta = m, entry_timestamp = now\<rparr> (entries mem)"
  by (simp add: store_def entries_def Let_def map_set_def)

lemma entries_empty: "entries \<lparr>data = Some []\<rparr> = []"
  by (simp add: entries_def)

text \<open>
  Claim C9. \<^verbatim>\<open>retrieve(query)\<close> returns, in the order of the map, exactly the stored
  entries whose key contains the query as a substring or whose serialised value does.
  After \<^verbatim>\<open>store("a1", v)\<close>, \<^verbatim>\<open>retrieve("a")\<close> returns that entry; and a query that
  occurs in no key and in no serialised value returns the empty list.
\<close>

theorem retrieve_substring_match:
  "retrieve stringify query mem =
     map to_found (filter (entry_matches stringify query) (entries mem)) \<and>
   \<lparr>found_key = ''a1'', found_value = v, found_meta = m, found_timestamp = now\<rparr>
     \<in> set (retrieve stringify ''a'' (snd (store now ''a1'' v m mem))) \<and>
   ((\<forall>ke \<in> set (entries mem). \<not> str_includes (fst ke) query \<and>
        \<not> str_includes (stringify (entry_value (snd ke))) query) \<longrightarrow>
      retrieve stringify query mem = [])"
proof -
  let ?e = "\<lparr>entry_value = v, meta = m, entry_timestamp = now\<rparr>"
  have "(''a1'', ?e) \<in> set (entries (snd (store now ''a1'' v m mem)))"
    unfolding entries_store by (rule update_member)
  moreover have "entry_matches stringify ''a'' (''a1'', ?e)"
    by (simp add: entry_matches_def)
  ultimately have "to_found (''a1'', ?e)
      \<in> set (retrieve stringify ''a'' (snd (store now ''a1'' v m mem)))"
    unfolding retrieve_filter by simp
  then have two: "\<lparr>found_key = ''a1'', found_value = v, found_meta = m, found_timestamp = now\<rparr>
     \<in> set (retrieve stringify ''a'' (snd (store now ''a1'' v m mem)))"
    by (simp add: to_found_def)
  have three: "retrieve stringify query mem = []"
    if "\<forall>ke \<in> set (entries mem). \<not> str_includes (fst ke) query \<and>
        \<not> str_includes (stringify (entry_value (snd ke))) query"
    unfolding retrieve_filter using that by (simp add: entry_matches_def filter_empty_conv)
  from two three show ?thesis
    using retrieve_filter by blast
qed

theorem retrieve_substring_match_witness:
  "entries (snd (store (Num 0) ''a1'' (7::nat) () \<lparr>data = Some []\<rparr>)) =
     [(''a1'', \<lparr>entry_value = 7, meta = (), entry_timestamp = Num 0\<rparr>)] \<and>
   retrieve (\<lambda>n. ''{}'') ''b'' (snd (store (Num 0) ''a1'' (7::nat) () \<lparr>data = Some []\<rparr>)) = []"
proof -
  have e: "entries (snd (store (Num 0) ''a1'' (7::nat) () \<lparr>data = Some []\<rparr>)) =
     [(''a1'', \<lparr>entry_value = 7, meta = (), entry_timestamp = Num 0\<rparr>)]"
    by (simp add: entries_store entries_empty)
  have h: "\<forall>ke \<in> set (entries (snd (store (Num 0) ''a1'' (7::nat) () \<lparr>data = Some []\<rparr>))).
      \<not> str_includes (fst ke) ''b'' \<and>
      \<not> str_includes ((\<lambda>n. ''{}'') (entry_value (snd ke))) ''b''"
    unfolding e by simp
  show ?thesis
    using e h retrieve_substring_match [of "\<lambda>n. ''{}''" "''b''"
      "snd (store (Num 0) ''a1'' (7::nat) () \<lparr>data = Some []\<rparr>)"]
    by blast
qed

section \<open>TwinCosmos: a tick before initialisation\<close>

text \<open>
  Claim C6. For every step size, \<^verbatim>\<open>step\<close> on a TwinCosmos that has not been initialised
  throws the error \<^verbatim>\<open>TwinCosmos not initialized\<close>, and leaves the object, its time
  counter included, as it was.
\<close>

theorem step_before_initialize_throws:
  "\<not> initialized (cosmos_st c) \<Longrightarrow>
   cosmos_step toStr clk deltaTime c = (Inl (Error ''TwinCosmos not initialized''), c)"
  by (simp add: cosmos_step_def)

theorem step_before_initialize_throws_witness:
  "\<not> initialized (cosmos_st (TwinCosmos no_cosmos_arg)) \<and>
   cosmos_step (\<lambda>x. []) zero_clock (Num 1) (TwinCosmos no_cosmos_arg) =
     (Inl (Error ''TwinCosmos not initialized''), TwinCosmos no_cosmos_arg)"
proof -
  have h: "\<not> initialized (cosmos_st (TwinCosmos no_cosmos_arg))"
    by (simp add: TwinCosmos_def)
  show ?thesis
    using h step_before_initialize_throws [OF h] by simp
qed

text \<open>Once initialised, a tick returns its results and advances the time counter.\<close>

lemma step_after_initialize_returns:
  assumes "initialized (cosmos_st c)"
  shows "\<exists>r c'. cosmos_step toStr clk deltaTime c = (Inr r, c') \<and>
           res_time r = cosmos_time (cosmos_st c) + deltaTime"
  using assms
  by (simp add: cosmos_step_def Let_def split: prod.split option.split)

end
